theory Spec2Isabelle
  imports Complex_Main
begin

section \<open>Numbers, errors and array primitives of the notebook\<close>

text \<open>
  The notebook \<^verbatim>\<open>notebooks/ImageCalibration.ipynb\<close> computes with Python numbers
  and numpy \<^verbatim>\<open>float64\<close> arrays. A number is modelled as an exact real or one of
  the three special values of IEEE arithmetic. Rounding, overflow of finite values
  and the sign of zero are not modelled: finite arithmetic is exact, a division by
  zero treats the divisor as \<^verbatim>\<open>+0.0\<close>. Python ints and floats share the type.
  numpy signals a division by zero with a warning and carries on with
  \<^verbatim>\<open>inf\<close> or \<^verbatim>\<open>nan\<close>; it raises nothing.
\<close>

datatype npfloat = Fin real | PInf | NInf | NaN

datatype py_error = IndexError | ValueError | OverflowError | TypeError | AttributeError

fun np_neg :: "npfloat \<Rightarrow> npfloat" where
  "np_neg (Fin x) = Fin (- x)"
| "np_neg PInf = NInf"
| "np_neg NInf = PInf"
| "np_neg NaN = NaN"

fun np_add :: "npfloat \<Rightarrow> npfloat \<Rightarrow> npfloat" where
  "np_add (Fin x) (Fin y) = Fin (x + y)"
| "np_add NaN _ = NaN"
| "np_add _ NaN = NaN"
| "np_add PInf NInf = NaN"
| "np_add NInf PInf = NaN"
| "np_add PInf _ = PInf"
| "np_add _ PInf = PInf"
| "np_add NInf _ = NInf"
| "np_add _ NInf = NInf"

definition np_sub :: "npfloat \<Rightarrow> npfloat \<Rightarrow> npfloat" where
  "np_sub x y = np_add x (np_neg y)"

text \<open>The infinity whose sign is that of the real \<open>s\<close>; \<^verbatim>\<open>nan\<close> when \<open>s = 0\<close>.\<close>

definition signed_inf :: "real \<Rightarrow> npfloat" where
  "signed_inf s = (if s = 0 then NaN else if 0 < s then PInf else NInf)"

fun np_mul :: "npfloat \<Rightarrow> npfloat \<Rightarrow> npfloat" where
  "np_mul (Fin x) (Fin y) = Fin (x * y)"
| "np_mul NaN _ = NaN"
| "np_mul _ NaN = NaN"
| "np_mul (Fin x) PInf = signed_inf x"
| "np_mul (Fin x) NInf = signed_inf (- x)"
| "np_mul PInf (Fin y) = signed_inf y"
| "np_mul NInf (Fin y) = signed_inf (- y)"
| "np_mul PInf PInf = PInf"
| "np_mul NInf NInf = PInf"
| "np_mul PInf NInf = NInf"
| "np_mul NInf PInf = NInf"

fun np_div :: "npfloat \<Rightarrow> npfloat \<Rightarrow> npfloat" where
  "np_div (Fin x) (Fin y) = (if y = 0 then signed_inf x else Fin (x / y))"
| "np_div NaN _ = NaN"
| "np_div _ NaN = NaN"
| "np_div (Fin x) PInf = Fin 0"
| "np_div (Fin x) NInf = Fin 0"
| "np_div PInf (Fin y) = (if 0 \<le> y then PInf else NInf)"
| "np_div NInf (Fin y) = (if 0 \<le> y then NInf else PInf)"
| "np_div PInf PInf = NaN"
| "np_div PInf NInf = NaN"
| "np_div NInf PInf = NaN"
| "np_div NInf NInf = NaN"

fun np_abs :: "npfloat \<Rightarrow> npfloat" where
  "np_abs (Fin x) = Fin \<bar>x\<bar>"
| "np_abs PInf = PInf"
| "np_abs NInf = PInf"
| "np_abs NaN = NaN"

text \<open>The comparison \<^verbatim>\<open>x < y\<close>: false as soon as one side is \<^verbatim>\<open>nan\<close>.\<close>

fun np_less :: "npfloat \<Rightarrow> npfloat \<Rightarrow> bool" where
  "np_less (Fin x) (Fin y) = (x < y)"
| "np_less NaN _ = False"
| "np_less _ NaN = False"
| "np_less _ NInf = False"
| "np_less PInf _ = False"
| "np_less NInf _ = True"
| "np_less _ PInf = True"

text \<open>\<^verbatim>\<open>np.isfinite\<close>: neither an infinity nor \<^verbatim>\<open>nan\<close>.\<close>

fun is_finite :: "npfloat \<Rightarrow> bool" where
  "is_finite (Fin x) = True"
| "is_finite PInf = False"
| "is_finite NInf = False"
| "is_finite NaN = False"

text \<open>
  Python's \<^verbatim>\<open>int(x)\<close> on a float truncates toward zero; it raises
  \<^verbatim>\<open>ValueError\<close> on \<^verbatim>\<open>nan\<close> and \<^verbatim>\<open>OverflowError\<close> on an infinity.
\<close>

definition trunc :: "real \<Rightarrow> int" where
  "trunc x = (if 0 \<le> x then \<lfloor>x\<rfloor> else \<lceil>x\<rceil>)"

fun py_int :: "npfloat \<Rightarrow> py_error + int" where
  "py_int (Fin x) = Inr (trunc x)"
| "py_int NaN = Inl ValueError"
| "py_int PInf = Inl OverflowError"
| "py_int NInf = Inl OverflowError"

text \<open>
  \<^verbatim>\<open>xs[i]\<close> on a list or a one-dimensional array: a negative index counts from
  the end, an index outside \<^verbatim>\<open>-len(xs) .. len(xs)-1\<close> raises \<^verbatim>\<open>IndexError\<close>.
\<close>

definition py_index :: "'a list \<Rightarrow> int \<Rightarrow> py_error + 'a" where
  "py_index xs i =
     (if 0 \<le> i \<and> i < int (length xs) then Inr (xs ! nat i)
      else if i < 0 \<and> - int (length xs) \<le> i then Inr (xs ! nat (int (length xs) + i))
      else Inl IndexError)"

text \<open>Sequencing of fallible steps: the first exception ends the computation.\<close>

definition bindE :: "py_error + 'a \<Rightarrow> ('a \<Rightarrow> py_error + 'b) \<Rightarrow> py_error + 'b" where
  "bindE m f = (case m of Inl err \<Rightarrow> Inl err | Inr v \<Rightarrow> f v)"

primrec mapE :: "('a \<Rightarrow> py_error + 'b) \<Rightarrow> 'a list \<Rightarrow> py_error + 'b list" where
  "mapE f [] = Inr []"
| "mapE f (x # xs) = bindE (f x) (\<lambda>y. bindE (mapE f xs) (\<lambda>ys. Inr (y # ys)))"

text \<open>
  \<^verbatim>\<open>np.vectorize(f)(arr)\<close> applies \<open>f\<close> to the elements in order. On an array
  of size 0 it raises \<^verbatim>\<open>ValueError\<close>, because no output type was given and
  there is no first element to read it from. The curve is a homogeneous array, so
  the output type read from the first result fits every result.
\<close>

definition np_vectorize :: "(npfloat \<Rightarrow> py_error + npfloat) \<Rightarrow> npfloat list \<Rightarrow> py_error + npfloat list" where
  "np_vectorize f arr = (if arr = [] then Inl ValueError else mapE f arr)"

section \<open>Curve lookup and the calibrate function\<close>

text \<open>
  \<^verbatim>\<open>def g_func(x): return g[int(x)]\<close>, with the global curve \<open>g\<close> passed
  explicitly, and its vectorized form.
\<close>

definition g_func :: "npfloat list \<Rightarrow> npfloat \<Rightarrow> py_error + npfloat" where
  "g_func g x = bindE (py_int x) (\<lambda>i. py_index g i)"

definition g_func_vec :: "npfloat list \<Rightarrow> npfloat list \<Rightarrow> py_error + npfloat list" where
  "g_func_vec g arr = np_vectorize (g_func g) arr"

text \<open>
  \<^verbatim>\<open>
  def calibrate(img, a, b, g):
      def apply_g(x):
          return g[int(x)]
      apply_g = np.vectorize(apply_g)
      return (apply_g(img) - b) / a
  \<close>
  The image is the sequence of its samples (the operation is elementwise and keeps
  the shape); \<open>a\<close> and \<open>b\<close> are scalars.
\<close>

definition apply_g :: "npfloat list \<Rightarrow> npfloat \<Rightarrow> py_error + npfloat" where
  "apply_g g x = bindE (py_int x) (\<lambda>i. py_index g i)"

definition calibrate :: "npfloat list \<Rightarrow> npfloat \<Rightarrow> npfloat \<Rightarrow> npfloat list \<Rightarrow> py_error + npfloat list" where
  "calibrate img a b g =
     bindE (np_vectorize (apply_g g) img)
       (\<lambda>looked_up. Inr (map (\<lambda>v. np_div (np_sub v b) a) looked_up))"

text \<open>The initial curve \<^verbatim>\<open>g = [i for i in range(256)]\<close>, the identity curve.\<close>

definition identity_curve :: "npfloat list" where
  "identity_curve = map (\<lambda>i. Fin (real i)) [0..<256]"

section \<open>Arrays\<close>

text \<open>
  A value that flows through the numpy expressions is a scalar or a one-dimensional
  array. A binary operation broadcasts: a scalar pairs with every element, two
  arrays need equal lengths unless one of them has length 1; any other pair of
  shapes raises \<^verbatim>\<open>ValueError\<close>.
\<close>

datatype ndval = Scalar npfloat | Arr "npfloat list"

definition arr_binop :: "(npfloat \<Rightarrow> npfloat \<Rightarrow> npfloat) \<Rightarrow> npfloat list \<Rightarrow> npfloat list \<Rightarrow> py_error + npfloat list" where
  "arr_binop f xs ys =
     (if length xs = length ys then Inr (map2 f xs ys)
      else if length xs = 1 then Inr (map (f (hd xs)) ys)
      else if length ys = 1 then Inr (map (\<lambda>x. f x (hd ys)) xs)
      else Inl ValueError)"

fun nd_binop :: "(npfloat \<Rightarrow> npfloat \<Rightarrow> npfloat) \<Rightarrow> ndval \<Rightarrow> ndval \<Rightarrow> py_error + ndval" where
  "nd_binop f (Scalar x) (Scalar y) = Inr (Scalar (f x y))"
| "nd_binop f (Scalar x) (Arr ys) = Inr (Arr (map (f x) ys))"
| "nd_binop f (Arr xs) (Scalar y) = Inr (Arr (map (\<lambda>x. f x y) xs))"
| "nd_binop f (Arr xs) (Arr ys) = bindE (arr_binop f xs ys) (\<lambda>zs. Inr (Arr zs))"

text \<open>
  \<^verbatim>\<open>total += rhs\<close>: on a Python int it is \<^verbatim>\<open>total = total + rhs\<close>; on an
  array it adds in place, so \<open>rhs\<close> must broadcast to the shape \<open>total\<close> has.
\<close>

fun nd_iadd :: "ndval \<Rightarrow> ndval \<Rightarrow> py_error + ndval" where
  "nd_iadd (Scalar x) rhs = nd_binop np_add (Scalar x) rhs"
| "nd_iadd (Arr xs) (Scalar y) = Inr (Arr (map (\<lambda>x. np_add x y) xs))"
| "nd_iadd (Arr xs) (Arr ys) =
     (if length xs = length ys then Inr (Arr (map2 np_add xs ys))
      else if length ys = 1 then Inr (Arr (map (\<lambda>x. np_add x (hd ys)) xs))
      else Inl ValueError)"

text \<open>
  Python's builtin \<^verbatim>\<open>sum(results)\<close>: it starts from the int 0 and adds the
  items from left to right; on an empty list it returns that 0.
\<close>

primrec py_sum_from :: "ndval \<Rightarrow> ndval list \<Rightarrow> py_error + ndval" where
  "py_sum_from acc [] = Inr acc"
| "py_sum_from acc (r # rs) = bindE (nd_binop np_add acc r) (\<lambda>acc'. py_sum_from acc' rs)"

definition py_sum :: "ndval list \<Rightarrow> py_error + ndval" where
  "py_sum results = py_sum_from (Scalar (Fin 0)) results"

text \<open>The sum and the mean of the elements of an array; the mean of no element is \<^verbatim>\<open>nan\<close>.\<close>

definition np_sum :: "npfloat list \<Rightarrow> npfloat" where
  "np_sum xs = foldl np_add (Fin 0) xs"

definition np_mean :: "npfloat list \<Rightarrow> npfloat" where
  "np_mean xs = np_div (np_sum xs) (Fin (real (length xs)))"

text \<open>
  \<^verbatim>\<open>np.median\<close>: \<^verbatim>\<open>nan\<close> on an empty array and on one that holds a
  \<^verbatim>\<open>nan\<close>; otherwise the middle element of the sorted array, or the mean of the
  two middle elements when the length is even.
\<close>

fun np_insort :: "npfloat \<Rightarrow> npfloat list \<Rightarrow> npfloat list" where
  "np_insort x [] = [x]"
| "np_insort x (y # ys) = (if np_less y x then y # np_insort x ys else x # y # ys)"

definition np_sort :: "npfloat list \<Rightarrow> npfloat list" where
  "np_sort xs = foldr np_insort xs []"

definition np_median :: "npfloat list \<Rightarrow> npfloat" where
  "np_median xs =
     (if xs = [] \<or> NaN \<in> set xs then NaN
      else if odd (length xs) then np_sort xs ! (length xs div 2)
      else np_div (np_add (np_sort xs ! (length xs div 2 - 1)) (np_sort xs ! (length xs div 2))) (Fin 2))"

fun nd_median :: "ndval \<Rightarrow> npfloat" where
  "nd_median (Arr xs) = np_median xs"
| "nd_median (Scalar x) = np_median [x]"

text \<open>
  A two-dimensional array carries its shape. The frame data has shape
  \<open>(num_files, num_pixels)\<close>: the notebook sets these two globals from
  \<^verbatim>\<open>data.shape\<close> and passes one colour channel of \<^verbatim>\<open>data\<close> to every
  function, so the model reads them off the array argument.
\<close>

record array2 =
  shape0 :: nat
  shape1 :: nat
  cell :: "nat \<Rightarrow> nat \<Rightarrow> npfloat"

definition rows :: "array2 \<Rightarrow> npfloat list list" where
  "rows arr = map (\<lambda>i. map (cell arr i) [0..<shape1 arr]) [0..<shape0 arr]"

definition cols :: "array2 \<Rightarrow> npfloat list list" where
  "cols arr = map (\<lambda>k. map (\<lambda>i. cell arr i k) [0..<shape0 arr]) [0..<shape1 arr]"

text \<open>\<^verbatim>\<open>arr[i, :]\<close> and \<^verbatim>\<open>arr[:, k]\<close>.\<close>

definition get_row :: "array2 \<Rightarrow> int \<Rightarrow> py_error + npfloat list" where
  "get_row arr i = py_index (rows arr) i"

definition get_col :: "array2 \<Rightarrow> int \<Rightarrow> py_error + npfloat list" where
  "get_col arr k = py_index (cols arr) k"

text \<open>\<^verbatim>\<open>E[:]\<close>: a Python scalar is not subscriptable.\<close>

fun full_slice :: "ndval \<Rightarrow> py_error + npfloat list" where
  "full_slice (Arr xs) = Inr xs"
| "full_slice (Scalar x) = Inl TypeError"

text \<open>\<^verbatim>\<open>arr[idx]\<close> with an array of indices.\<close>

fun fancy_index :: "ndval \<Rightarrow> nat list \<Rightarrow> py_error + npfloat list" where
  "fancy_index (Arr xs) idx = mapE (\<lambda>y. py_index xs (int y)) idx"
| "fancy_index (Scalar x) idx = Inl IndexError"

text \<open>\<^verbatim>\<open>mask.nonzero()\<close>: the positions where the mask is true.\<close>

definition nonzero :: "bool list \<Rightarrow> nat list" where
  "nonzero flags = filter (\<lambda>j. flags ! j) [0..<length flags]"

text \<open>
  The frame set of the data model: \<open>shape0\<close> frames of \<open>shape1\<close> samples each,
  every sample an integer code in \<open>[0, 255]\<close>; \<open>code i p\<close> is the code of pixel
  \<open>p\<close> in frame \<open>i\<close>.
\<close>

definition frame_set :: "array2 \<Rightarrow> (nat \<Rightarrow> nat \<Rightarrow> nat) \<Rightarrow> bool" where
  "frame_set data code =
     (\<forall>i < shape0 data. \<forall>p < shape1 data. code i p \<le> 255 \<and> cell data i p = Fin (real (code i p)))"

section \<open>Step 1: irradiance prediction\<close>

text \<open>
  \<^verbatim>\<open>
  def calc_E(w, data, b, a):
      def calc_E_single(w, data, b, a, i):
          return w[i] * (g_func(data[i, :]) - b[i]) / a[i]
      results = Parallel(n_jobs=num_cores, mmap_mode=None)(
          delayed(calc_E_single)(w, data, b, a, i) for i in range(num_files))
      return sum(results)
  \<close>
  The parallel map is the list of the results in the order of \<open>i\<close>. The global
  curve \<open>g\<close> comes first among the arguments.
\<close>

definition calc_E_single :: "npfloat list \<Rightarrow> npfloat list \<Rightarrow> array2 \<Rightarrow> npfloat list \<Rightarrow> npfloat list \<Rightarrow> nat \<Rightarrow> py_error + ndval" where
  "calc_E_single g w data b a i =
     bindE (py_index w (int i)) (\<lambda>wi.
     bindE (get_row data (int i)) (\<lambda>row.
     bindE (g_func_vec g row) (\<lambda>gs.
     bindE (py_index b (int i)) (\<lambda>bi.
     bindE (py_index a (int i)) (\<lambda>ai.
     Inr (Arr (map (\<lambda>v. np_div (np_mul wi (np_sub v bi)) ai) gs)))))))"

definition calc_E :: "npfloat list \<Rightarrow> npfloat list \<Rightarrow> array2 \<Rightarrow> npfloat list \<Rightarrow> npfloat list \<Rightarrow> py_error + ndval" where
  "calc_E g w data b a =
     bindE (mapE (calc_E_single g w data b a) [0..<shape0 data]) py_sum"

section \<open>Step 2: residuals and pools\<close>

text \<open>
  \<^verbatim>\<open>
  def pool(data, k, z, eps=1):
      # find each pool of pixels around z with a maximum difference of epsilon=1
      image = data[k, :]
      mask = np.abs(image - z) < eps
      return mask.nonzero()
  \<close>
  The result is a tuple that holds one array, the indices of the pool; the model
  returns that array.
\<close>

definition pool :: "array2 \<Rightarrow> int \<Rightarrow> npfloat \<Rightarrow> npfloat \<Rightarrow> py_error + nat list" where
  "pool data k z eps =
     bindE (get_row data k) (\<lambda>image.
     Inr (nonzero (map (\<lambda>x. np_less (np_abs (np_sub x z)) eps) image)))"

text \<open>
  \<^verbatim>\<open>
  def calc_e(data, E, a, b):
      pool_errors = np.ndarray((num_pixels, num_files))
      median_errors = np.ndarray((num_files,))
      for k in range(num_files):
          errors_per_pixel = a[k] * E + b[k] - g_func(data[k, :])
          for i, z in enumerate(data[k, :]):
              pool_z = pool(data, k, z)
              pool_errors[i, k] = np.mean([errors_per_pixel[y] for y in pool_z])
          median_errors[k] = 1.265 * np.median(errors_per_pixel - pool_errors[:, k])
      return pool_errors, median_errors
  \<close>
  \<open>pool_z\<close> is a tuple holding one index array, so the list under
  \<^verbatim>\<open>np.mean\<close> holds one array, the residuals of the pool. One pass of the outer
  loop fills column \<open>k\<close> of the table and entry \<open>k\<close> of the scales.
\<close>

definition errors_per_pixel :: "npfloat list \<Rightarrow> array2 \<Rightarrow> ndval \<Rightarrow> npfloat list \<Rightarrow> npfloat list \<Rightarrow> nat \<Rightarrow> py_error + ndval" where
  "errors_per_pixel g data E a b k =
     bindE (py_index a (int k)) (\<lambda>ak.
     bindE (nd_binop np_mul (Scalar ak) E) (\<lambda>scaled.
     bindE (py_index b (int k)) (\<lambda>bk.
     bindE (nd_binop np_add scaled (Scalar bk)) (\<lambda>shifted.
     bindE (get_row data (int k)) (\<lambda>row.
     bindE (g_func_vec g row) (\<lambda>gs.
     nd_binop np_sub shifted (Arr gs)))))))"

definition pool_mean :: "array2 \<Rightarrow> nat \<Rightarrow> ndval \<Rightarrow> npfloat \<Rightarrow> py_error + npfloat" where
  "pool_mean data k errs z =
     bindE (pool data (int k) z (Fin 1)) (\<lambda>pool_z.
     bindE (fancy_index errs pool_z) (\<lambda>vals.
     Inr (np_mean vals)))"

definition calc_e_frame :: "npfloat list \<Rightarrow> array2 \<Rightarrow> ndval \<Rightarrow> npfloat list \<Rightarrow> npfloat list \<Rightarrow> nat \<Rightarrow> py_error + (npfloat list \<times> npfloat)" where
  "calc_e_frame g data E a b k =
     bindE (errors_per_pixel g data E a b k) (\<lambda>errs.
     bindE (get_row data (int k)) (\<lambda>image.
     bindE (mapE (pool_mean data k errs) image) (\<lambda>column.
     bindE (nd_binop np_sub errs (Arr column)) (\<lambda>diff.
     Inr (column, np_mul (Fin 1.265) (nd_median diff))))))"

definition calc_e :: "npfloat list \<Rightarrow> array2 \<Rightarrow> ndval \<Rightarrow> npfloat list \<Rightarrow> npfloat list \<Rightarrow> py_error + (array2 \<times> npfloat list)" where
  "calc_e g data E a b =
     bindE (mapE (calc_e_frame g data E a b) [0..<shape0 data]) (\<lambda>frames.
     Inr (\<lparr>shape0 = shape1 data, shape1 = shape0 data, cell = (\<lambda>i k. fst (frames ! k) ! i)\<rparr>,
          map snd frames))"

text \<open>
  The statistics of the residual aggregation as the specification words them, on
  real numbers: the raw residual
  \<open>gain[k]*E[p] + bias[k] - responseCurve[frames[k][p]]\<close>, the mean of a pool's
  residuals, and the median of a sample.
\<close>

definition spec_raw_residual :: "real list \<Rightarrow> (nat \<Rightarrow> nat \<Rightarrow> nat) \<Rightarrow> real list \<Rightarrow> real list \<Rightarrow> real list \<Rightarrow> nat \<Rightarrow> nat \<Rightarrow> real" where
  "spec_raw_residual curve code E gain bias k p = gain ! k * E ! p + bias ! k - curve ! code k p"

definition spec_mean :: "real list \<Rightarrow> real" where
  "spec_mean xs = sum_list xs / real (length xs)"

definition spec_median :: "real list \<Rightarrow> real" where
  "spec_median xs =
     (if odd (length xs) then sort xs ! (length xs div 2)
      else (sort xs ! (length xs div 2 - 1) + sort xs ! (length xs div 2)) / 2)"

text \<open>
  The pool as the specification words it: the pixel positions of the frame whose
  code lies within the tolerance of this pixel's code, the bounds included
  (\<open>\<plusminus>1\<close> code by default). With it, the pooled residual and the error scale
  of a frame as the specification gives them.
\<close>

definition spec_pool :: "(nat \<Rightarrow> nat \<Rightarrow> nat) \<Rightarrow> nat \<Rightarrow> real \<Rightarrow> nat \<Rightarrow> nat \<Rightarrow> nat list" where
  "spec_pool code num_pixels tolerance k p =
     filter (\<lambda>q. \<bar>real (code k q) - real (code k p)\<bar> \<le> tolerance) [0..<num_pixels]"

definition spec_pooled_residual :: "real list \<Rightarrow> (nat \<Rightarrow> nat \<Rightarrow> nat) \<Rightarrow> real list \<Rightarrow> real list \<Rightarrow> real list \<Rightarrow> nat \<Rightarrow> real \<Rightarrow> nat \<Rightarrow> nat \<Rightarrow> real" where
  "spec_pooled_residual curve code E gain bias num_pixels tolerance k p =
     spec_mean (map (spec_raw_residual curve code E gain bias k)
                  (spec_pool code num_pixels tolerance k p))"

definition spec_error_scale :: "real list \<Rightarrow> (nat \<Rightarrow> nat \<Rightarrow> nat) \<Rightarrow> real list \<Rightarrow> real list \<Rightarrow> real list \<Rightarrow> nat \<Rightarrow> real \<Rightarrow> nat \<Rightarrow> real" where
  "spec_error_scale curve code E gain bias num_pixels tolerance k =
     1.265 * spec_median
       (map (\<lambda>p. spec_raw_residual curve code E gain bias k p
                  - spec_pooled_residual curve code E gain bias num_pixels tolerance k p)
          [0..<num_pixels])"

section \<open>Step 3: the forward model and the objective\<close>

text \<open>
  \<^verbatim>\<open>
  def calc_F(E, da, db, dg, w, data, k):
      def calc_F_single(E, da, db, dg, w, data, k, i):
          if i == k:
              return 0
          dg_of_data = np.ndarray((num_pixels,))
          dg_of_data[:] = [dg[int(x)] for x in data[i, :]]
          return w[i] * a[k] / da[i] * (dg_of_data - db[i] - E[:] * da[i])
      results = Parallel(n_jobs=num_cores, mmap_mode=None)(
          delayed(calc_F_single)(E, da, db, dg, w, data, k, i) for i in range(num_files))
      total = sum(results)
      total += (w[k] - 1) * (g_func(data[k, :]) - b[k] - E[:] * a[k])
      return total
  \<close>
  The globals \<open>a\<close>, \<open>b\<close> and \<open>g\<close> come first among the arguments. A row of
  \<open>data\<close> has \<open>num_pixels\<close> entries, so the list always fits \<open>dg_of_data\<close>.
\<close>

definition calc_F_single :: "npfloat list \<Rightarrow> ndval \<Rightarrow> npfloat list \<Rightarrow> npfloat list \<Rightarrow> npfloat list \<Rightarrow> npfloat list \<Rightarrow> array2 \<Rightarrow> nat \<Rightarrow> nat \<Rightarrow> py_error + ndval" where
  "calc_F_single a E da db dg w data k i =
     (if i = k then Inr (Scalar (Fin 0))
      else
        bindE (get_row data (int i)) (\<lambda>row.
        bindE (mapE (\<lambda>x. bindE (py_int x) (py_index dg)) row) (\<lambda>dg_of_data.
        bindE (py_index w (int i)) (\<lambda>wi.
        bindE (py_index a (int k)) (\<lambda>ak.
        bindE (py_index da (int i)) (\<lambda>dai.
        bindE (py_index db (int i)) (\<lambda>dbi.
        bindE (nd_binop np_sub (Arr dg_of_data) (Scalar dbi)) (\<lambda>lhs.
        bindE (full_slice E) (\<lambda>Es.
        bindE (py_index da (int i)) (\<lambda>dai'.
        bindE (nd_binop np_mul (Arr Es) (Scalar dai')) (\<lambda>rhs.
        bindE (nd_binop np_sub lhs rhs) (\<lambda>inner.
        nd_binop np_mul (Scalar (np_div (np_mul wi ak) dai)) inner))))))))))))"

definition self_term :: "npfloat list \<Rightarrow> npfloat list \<Rightarrow> npfloat list \<Rightarrow> ndval \<Rightarrow> npfloat list \<Rightarrow> array2 \<Rightarrow> nat \<Rightarrow> py_error + ndval" where
  "self_term a b g E w data k =
     bindE (py_index w (int k)) (\<lambda>wk.
     bindE (get_row data (int k)) (\<lambda>row.
     bindE (g_func_vec g row) (\<lambda>gs.
     bindE (py_index b (int k)) (\<lambda>bk.
     bindE (nd_binop np_sub (Arr gs) (Scalar bk)) (\<lambda>lhs.
     bindE (full_slice E) (\<lambda>Es.
     bindE (py_index a (int k)) (\<lambda>ak.
     bindE (nd_binop np_mul (Arr Es) (Scalar ak)) (\<lambda>rhs.
     bindE (nd_binop np_sub lhs rhs) (\<lambda>inner.
     nd_binop np_mul (Scalar (np_sub wk (Fin 1))) inner)))))))))"

definition calc_F :: "npfloat list \<Rightarrow> npfloat list \<Rightarrow> npfloat list \<Rightarrow> ndval \<Rightarrow> npfloat list \<Rightarrow> npfloat list \<Rightarrow> npfloat list \<Rightarrow> npfloat list \<Rightarrow> array2 \<Rightarrow> nat \<Rightarrow> py_error + ndval" where
  "calc_F a b g E da db dg w data k =
     bindE (mapE (calc_F_single a E da db dg w data k) [0..<shape0 data]) (\<lambda>results.
     bindE (py_sum results) (\<lambda>total.
     bindE (self_term a b g E w data k) (\<lambda>rhs.
     nd_iadd total rhs)))"

text \<open>
  The globals of the notebook that the objective and the loop read and write. The
  frame data (\<^verbatim>\<open>green_channel\<close>) never changes and is passed beside the state.
\<close>

record nb_state =
  glob_a :: "npfloat list"
  glob_b :: "npfloat list"
  glob_g :: "npfloat list"
  glob_E :: ndval
  glob_w :: "npfloat list"
  glob_sigma :: "npfloat list"
  glob_e :: array2

text \<open>
  \<^verbatim>\<open>
  def calc_total_F_error(args):
      def calc_total_F_error_single(E, da, db, dg, w, data, k):
          F = calc_F(E, da, db, dg, w, data, k)
          return (e[:, k] - F) ** 2 / sigma[k]
      da = args[0:num_files]
      db = args[num_files:2 * num_files]
      dg = args[2 * num_files:]
      results = [calc_total_F_error_single(E, da, db, dg, w, green_channel, i) for i in range(num_files)]
      results = sum(results).sum()
      return results
  \<close>
  A slice never raises. \<^verbatim>\<open>sum([])\<close> is the int 0, which has no method
  \<^verbatim>\<open>sum\<close>.
\<close>

fun nd_square :: "ndval \<Rightarrow> ndval" where
  "nd_square (Scalar x) = Scalar (np_mul x x)"
| "nd_square (Arr xs) = Arr (map (\<lambda>x. np_mul x x) xs)"

fun sum_method :: "ndval \<Rightarrow> py_error + npfloat" where
  "sum_method (Arr xs) = Inr (np_sum xs)"
| "sum_method (Scalar x) = Inl AttributeError"

definition calc_total_F_error_single :: "nb_state \<Rightarrow> npfloat list \<Rightarrow> npfloat list \<Rightarrow> npfloat list \<Rightarrow> array2 \<Rightarrow> nat \<Rightarrow> py_error + ndval" where
  "calc_total_F_error_single s da db dg data k =
     bindE (calc_F (glob_a s) (glob_b s) (glob_g s) (glob_E s) da db dg (glob_w s) data k) (\<lambda>F.
     bindE (get_col (glob_e s) (int k)) (\<lambda>ek.
     bindE (nd_binop np_sub (Arr ek) F) (\<lambda>diff.
     bindE (py_index (glob_sigma s) (int k)) (\<lambda>sk.
     nd_binop np_div (nd_square diff) (Scalar sk)))))"

definition calc_total_F_error :: "nb_state \<Rightarrow> array2 \<Rightarrow> npfloat list \<Rightarrow> py_error + npfloat" where
  "calc_total_F_error s data args =
     (let num_files = shape0 data;
          da = take num_files args;
          db = take num_files (drop num_files args);
          dg = drop (2 * num_files) args
      in bindE (mapE (calc_total_F_error_single s da db dg data) [0..<num_files]) (\<lambda>results.
         bindE (py_sum results) sum_method))"

text \<open>
  \<^verbatim>\<open>
  def calc_gradients():
      args = np.zeros((2 * num_files + 256,))
      args[0:num_files] = 1
      res = minimize(calc_total_F_error, args, options={"maxiter": 10})
      da = res.x[0: num_files]
      db = res.x[num_files:2 * num_files]
      dg = res.x[2 * num_files:]
      return da, db, dg
  \<close>
  \<^verbatim>\<open>scipy.optimize.minimize\<close> is not code of the notebook: it is a parameter,
  a function from the objective and the start vector to \<^verbatim>\<open>res.x\<close>.
\<close>

type_synonym minimizer = "(npfloat list \<Rightarrow> py_error + npfloat) \<Rightarrow> npfloat list \<Rightarrow> py_error + npfloat list"

definition initial_args :: "nat \<Rightarrow> npfloat list" where
  "initial_args num_files = replicate num_files (Fin 1) @ replicate (num_files + 256) (Fin 0)"

definition calc_gradients :: "minimizer \<Rightarrow> nb_state \<Rightarrow> array2 \<Rightarrow> py_error + (npfloat list \<times> npfloat list \<times> npfloat list)" where
  "calc_gradients minimize s data =
     (let num_files = shape0 data
      in bindE (minimize (calc_total_F_error s data) (initial_args num_files)) (\<lambda>x.
         Inr (take num_files x, take num_files (drop num_files x), drop (2 * num_files) x)))"

section \<open>Step 4: the calibration loop\<close>

text \<open>
  \<^verbatim>\<open>
  LEARN_RATE = 0.1
  NUM_LEARNING_ITERATIONS = 10

  for j in range(NUM_LEARNING_ITERATIONS):
      green_channel = data[:, :, 1]
      E = calc_E(w, green_channel, b, a)
      e, median_errors = calc_e(green_channel, E, a, b)
      w = 1 / median_errors
      sigma = median_errors
      da, db, dg = calc_gradients()
      a = a - LEARN_RATE * da
      b = b - LEARN_RATE * db
      g = g - LEARN_RATE * dg
      example_img = data[0]
      plt.imshow(calibrate(example_img))
      plt.canvas.draw()
  \<close>
  \<open>update_step\<close> is the body down to the update of \<open>g\<close>. The rest of the body
  draws a picture: it calls \<open>calibrate\<close>, a function of four parameters, with
  one argument, which raises \<^verbatim>\<open>TypeError\<close>. The iteration count is a
  parameter of the model.
\<close>

definition LEARN_RATE :: npfloat where
  "LEARN_RATE = Fin 0.1"

definition NUM_LEARNING_ITERATIONS :: int where
  "NUM_LEARNING_ITERATIONS = 10"

definition damped_update :: "npfloat list \<Rightarrow> npfloat list \<Rightarrow> py_error + npfloat list" where
  "damped_update param delta = arr_binop np_sub param (map (np_mul LEARN_RATE) delta)"

definition update_step :: "minimizer \<Rightarrow> array2 \<Rightarrow> nb_state \<Rightarrow> py_error + nb_state" where
  "update_step minimize data s =
     bindE (calc_E (glob_g s) (glob_w s) data (glob_b s) (glob_a s)) (\<lambda>E.
     bindE (calc_e (glob_g s) data E (glob_a s) (glob_b s)) (\<lambda>(e, median_errors).
     let s1 = s\<lparr>glob_E := E, glob_e := e,
                 glob_w := map (np_div (Fin 1)) median_errors,
                 glob_sigma := median_errors\<rparr>
     in bindE (calc_gradients minimize s1 data) (\<lambda>(da, db, dg).
        bindE (damped_update (glob_a s1) da) (\<lambda>a'.
        bindE (damped_update (glob_b s1) db) (\<lambda>b'.
        bindE (damped_update (glob_g s1) dg) (\<lambda>g'.
        Inr (s1\<lparr>glob_a := a', glob_b := b', glob_g := g'\<rparr>)))))))"

definition plot_step :: "array2 \<Rightarrow> nb_state \<Rightarrow> py_error + unit" where
  "plot_step data s = bindE (get_row data 0) (\<lambda>example_img. Inl TypeError)"

definition loop_body :: "minimizer \<Rightarrow> array2 \<Rightarrow> nb_state \<Rightarrow> py_error + nb_state" where
  "loop_body minimize data s =
     bindE (update_step minimize data s) (\<lambda>s'.
     bindE (plot_step data s') (\<lambda>_. Inr s'))"

primrec for_range :: "nat \<Rightarrow> (nb_state \<Rightarrow> py_error + nb_state) \<Rightarrow> nb_state \<Rightarrow> py_error + nb_state" where
  "for_range 0 body s = Inr s"
| "for_range (Suc n) body s = bindE (body s) (for_range n body)"

definition calibration_loop :: "minimizer \<Rightarrow> array2 \<Rightarrow> int \<Rightarrow> nb_state \<Rightarrow> py_error + nb_state" where
  "calibration_loop minimize data N s = for_range (nat N) (loop_body minimize data) s"

section \<open>Basic facts about the primitives\<close>

lemma bindE_simps [simp]:
  "bindE (Inl err) f = Inl err"
  "bindE (Inr v) f = f v"
  by (simp_all add: bindE_def)

lemma mapE_Inr:
  "(\<And>x. x \<in> set xs \<Longrightarrow> f x = Inr (h x)) \<Longrightarrow> mapE f xs = Inr (map h xs)"
  by (induction xs) simp_all

lemma mapE_cong:
  "(\<And>x. x \<in> set xs \<Longrightarrow> f x = f' x) \<Longrightarrow> mapE f xs = mapE f' xs"
  by (induction xs) simp_all

lemma trunc_unit_interval:
  assumes "real n \<le> x" "x < real n + 1"
  shows "trunc x = int n"
proof -
  have "0 \<le> x" using assms by linarith
  moreover have "\<lfloor>x\<rfloor> = int n" using assms by (simp add: floor_unique)
  ultimately show ?thesis by (simp add: trunc_def)
qed

lemma trunc_of_nat [simp]: "trunc (real n) = int n"
  by (simp add: trunc_def)

lemma g_func_code:
  "n < length g \<Longrightarrow> trunc x = int n \<Longrightarrow> g_func g (Fin x) = Inr (g ! n)"
  by (simp add: g_func_def py_index_def)

lemma apply_g_code:
  "n < length g \<Longrightarrow> trunc x = int n \<Longrightarrow> apply_g g (Fin x) = Inr (g ! n)"
  by (simp add: apply_g_def py_index_def)

lemma length_identity_curve [simp]: "length identity_curve = 256"
  by (simp add: identity_curve_def)

lemma nth_identity_curve: "n < 256 \<Longrightarrow> identity_curve ! n = Fin (real n)"
  by (simp add: identity_curve_def)

lemma mapE_map_eq:
  "map f xs = map f' ys \<Longrightarrow> mapE f xs = mapE f' ys"
proof (induction xs arbitrary: ys)
  case Nil
  then show ?case by simp
next
  case (Cons x xs)
  then show ?case by (cases ys) auto
qed

lemma trunc_neg_wrap:
  assumes "- 257 < x" "x \<le> - 1"
  shows "trunc x = \<lceil>x\<rceil>" "- 256 \<le> \<lceil>x\<rceil>" "\<lceil>x\<rceil> \<le> - 1"
proof -
  show "trunc x = \<lceil>x\<rceil>" using assms by (simp add: trunc_def)
  have "(- 257 :: int) < \<lceil>x\<rceil>" using assms(1) by (simp add: less_ceiling_iff)
  then show "- 256 \<le> \<lceil>x\<rceil>" by linarith
  show "\<lceil>x\<rceil> \<le> - 1" using assms(2) by (simp add: ceiling_le_iff)
qed

lemma trunc_small_negative:
  assumes "- 1 < x" "x < 0"
  shows "trunc x = 0"
proof -
  have "\<lceil>x\<rceil> = 0" using assms by (simp add: ceiling_unique)
  then show ?thesis using assms by (simp add: trunc_def)
qed

lemma g_func_fails_iff:
  assumes "length g = 256"
  shows "(g_func g (Fin x) = Inl IndexError) = (256 \<le> trunc x \<or> trunc x < - 256)"
  using assms by (auto simp add: g_func_def py_index_def)

lemma g_func_Fin_error:
  "g_func g (Fin x) = Inl err \<Longrightarrow> err = IndexError"
  by (auto simp add: g_func_def py_index_def split: if_splits)

lemma apply_g_eq_g_func: "apply_g g x = g_func g x"
  by (simp add: apply_g_def g_func_def)

lemma trunc_neg_three: "trunc (- 3) = - 3" by (simp add: trunc_def)

section \<open>The calibrate function\<close>

text \<open>
  Claim C8. A raw frame with at least one sample, all samples integer codes in
  \<open>[0, 255]\<close>, is returned unchanged by \<open>calibrate\<close> with gain 1, bias 0
  and the identity curve: each sample \<open>c\<close> is looked up as \<open>g[c] = c\<close>, and
  \<open>(c - 0) / 1 = c\<close>.
\<close>

theorem calibrate_identity_unchanged:
  assumes "codes \<noteq> []" and "\<forall>c \<in> set codes. c \<le> 255"
  shows "calibrate (map (\<lambda>c. Fin (real c)) codes) (Fin 1) (Fin 0) identity_curve
           = Inr (map (\<lambda>c. Fin (real c)) codes)"
proof -
  let ?img = "map (\<lambda>c. Fin (real c)) codes"
  have "\<And>x. x \<in> set ?img \<Longrightarrow> apply_g identity_curve x = Inr x"
  proof -
    fix x assume "x \<in> set ?img"
    then obtain c where c: "c \<in> set codes" "x = Fin (real c)" by auto
    with assms have "c < 256" by auto
    then show "apply_g identity_curve x = Inr x"
      using c by (simp add: apply_g_code [where n = c] nth_identity_curve)
  qed
  then have "mapE (apply_g identity_curve) ?img = Inr (map (\<lambda>x. x) ?img)"
    by (rule mapE_Inr)
  moreover have "map (\<lambda>v. np_div (np_sub v (Fin 0)) (Fin 1)) ?img = ?img"
    by (simp add: np_sub_def o_def)
  ultimately show ?thesis
    using assms(1) by (simp add: calibrate_def np_vectorize_def)
qed

theorem calibrate_identity_unchanged_witness:
  "calibrate [Fin 0, Fin 7, Fin 255] (Fin 1) (Fin 0) identity_curve = Inr [Fin 0, Fin 7, Fin 255]"
  using calibrate_identity_unchanged [of "[0, 7, 255]"] by simp

section \<open>Curve lookup on samples that are not codes\<close>

text \<open>
  Claim C9, as the code has it. With a 256-entry curve, a sample \<open>x\<close> with
  \<open>-257 < x \<le> -1\<close> has \<open>int(x)\<close> in \<open>[-256, -1]\<close>, and the lookups of
  irradiance estimation, residual computation (\<open>g_func\<close>) and calibrate
  (\<open>apply_g\<close>) return the curve entry at index \<open>256 + int(x)\<close>. A sample with
  \<open>-1 < x < 0\<close> truncates to 0 and gets entry 0. The lookup of a finite sample
  fails exactly when \<open>int(x) \<ge> 256\<close> or \<open>int(x) < -256\<close>.
\<close>

theorem lookup_negative_sample:
  assumes "length g = 256"
  shows "(- 257 < x \<and> x \<le> - 1 \<longrightarrow>
            0 \<le> 256 + trunc x \<and> 256 + trunc x < 256
            \<and> g_func g (Fin x) = Inr (g ! nat (256 + trunc x))
            \<and> apply_g g (Fin x) = Inr (g ! nat (256 + trunc x)))
       \<and> (- 1 < x \<and> x < 0 \<longrightarrow>
            g_func g (Fin x) = Inr (g ! 0) \<and> apply_g g (Fin x) = Inr (g ! 0))
       \<and> ((\<exists>err. g_func g (Fin x) = Inl err) = (256 \<le> trunc x \<or> trunc x < - 256))
       \<and> ((\<exists>err. apply_g g (Fin x) = Inl err) = (256 \<le> trunc x \<or> trunc x < - 256))"
proof -
  have wrap: "0 \<le> 256 + trunc x \<and> 256 + trunc x < 256
        \<and> g_func g (Fin x) = Inr (g ! nat (256 + trunc x))" if "- 257 < x" "x \<le> - 1"
  proof -
    have lo: "- 256 \<le> trunc x" and hi: "trunc x \<le> - 1"
      using trunc_neg_wrap [OF that] by simp_all
    have "py_index g (trunc x) = Inr (g ! nat (256 + trunc x))"
      using lo hi assms unfolding py_index_def by simp
    then show ?thesis using lo hi by (simp add: g_func_def)
  qed
  have small: "g_func g (Fin x) = Inr (g ! 0)" if "- 1 < x" "x < 0"
    using trunc_small_negative [OF that] assms by (simp add: g_func_def py_index_def)
  have fails: "(\<exists>err. g_func g (Fin x) = Inl err) = (256 \<le> trunc x \<or> trunc x < - 256)"
    using g_func_fails_iff [OF assms, of x] g_func_Fin_error [of g x] by blast
  show ?thesis using wrap small fails by (simp add: apply_g_eq_g_func)
qed

theorem lookup_negative_sample_witness:
  "g_func identity_curve (Fin (- 3)) = Inr (Fin 253)
   \<and> apply_g identity_curve (Fin (- 3)) = Inr (Fin 253)"
  using lookup_negative_sample [of identity_curve "- 3"]
  by (simp add: trunc_neg_three nth_identity_curve)

text \<open>
  The sample \<open>-1/2\<close> lies in \<open>[-256, 0)\<close>, yet \<open>int(-1/2) = 0\<close>: the lookup
  returns entry 0, and index \<open>256 + int(x) = 256\<close> is no entry of the curve. The
  sample \<open>-257\<close> fails the lookup although \<open>int(x) < 256\<close>.
\<close>

theorem lookup_negative_sample_counterexample:
  "(- 256 :: real) \<le> - 1 / 2 \<and> (- 1 / 2 :: real) < 0
   \<and> g_func identity_curve (Fin (- 1 / 2)) = Inr (Fin 0)
   \<and> py_index identity_curve (256 + trunc (- 1 / 2)) = Inl IndexError
   \<and> g_func identity_curve (Fin (- 257)) = Inl IndexError
   \<and> \<not> 256 \<le> trunc (- 257)"
proof -
  have "identity_curve ! 0 = Fin 0"
    using nth_identity_curve [of 0] by simp
  moreover have "trunc (- 257) = - 257"
    by (simp add: trunc_def)
  moreover have "trunc (- 1 / 2) = 0"
    by (rule trunc_small_negative) simp_all
  ultimately show ?thesis
    by (simp add: g_func_def py_index_def)
qed

text \<open>
  Claim C10. With a 256-entry curve, every sample in \<open>[n, n+1)\<close>, for an integer
  \<open>n\<close> in \<open>[0, 255]\<close>, is looked up as curve entry \<open>n\<close>; and \<open>calibrate\<close>
  gives the same result, value or exception, on two frames whose samples lie
  pairwise in the same unit intervals.
\<close>

theorem lookup_truncates_sample:
  assumes "length g = 256"
  shows "(\<forall>n x. n \<le> 255 \<and> real n \<le> x \<and> x < real n + 1 \<longrightarrow>
            g_func g (Fin x) = Inr (g ! n) \<and> apply_g g (Fin x) = Inr (g ! n))
       \<and> (\<forall>img1 img2 a b.
            length img1 = length img2
            \<and> (\<forall>j < length img1. \<exists>n \<le> 255. real n \<le> img1 ! j \<and> img1 ! j < real n + 1
                                          \<and> real n \<le> img2 ! j \<and> img2 ! j < real n + 1)
            \<longrightarrow> calibrate (map Fin img1) a b g = calibrate (map Fin img2) a b g)"
proof (intro conjI allI impI)
  fix n :: nat and x :: real
  assume h: "n \<le> 255 \<and> real n \<le> x \<and> x < real n + 1"
  then have t: "trunc x = int n" by (simp add: trunc_unit_interval)
  from h assms have "n < length g" by simp
  then show "g_func g (Fin x) = Inr (g ! n)" using t by (rule g_func_code)
  from \<open>n < length g\<close> show "apply_g g (Fin x) = Inr (g ! n)" using t by (rule apply_g_code)
next
  fix img1 img2 :: "real list" and a b :: npfloat
  assume h: "length img1 = length img2
     \<and> (\<forall>j < length img1. \<exists>n \<le> 255. real n \<le> img1 ! j \<and> img1 ! j < real n + 1
                                          \<and> real n \<le> img2 ! j \<and> img2 ! j < real n + 1)"
  have same: "map (apply_g g \<circ> Fin) img1 = map (apply_g g \<circ> Fin) img2"
  proof (rule nth_equalityI)
    show "length (map (apply_g g \<circ> Fin) img1) = length (map (apply_g g \<circ> Fin) img2)"
      using h by simp
  next
    fix j assume "j < length (map (apply_g g \<circ> Fin) img1)"
    then have j: "j < length img1" by simp
    with h obtain n where n: "n \<le> 255" "real n \<le> img1 ! j" "img1 ! j < real n + 1"
      "real n \<le> img2 ! j" "img2 ! j < real n + 1" by blast
    have "trunc (img1 ! j) = trunc (img2 ! j)"
      using n by (simp add: trunc_unit_interval)
    then have "apply_g g (Fin (img1 ! j)) = apply_g g (Fin (img2 ! j))"
      by (simp add: apply_g_def)
    then show "map (apply_g g \<circ> Fin) img1 ! j = map (apply_g g \<circ> Fin) img2 ! j"
      using j h by simp
  qed
  have "mapE (apply_g g) (map Fin img1) = mapE (apply_g g) (map Fin img2)"
    using same by (intro mapE_map_eq) simp
  moreover have "(map Fin img1 = []) = (map Fin img2 = [])" using h by auto
  ultimately show "calibrate (map Fin img1) a b g = calibrate (map Fin img2) a b g"
    by (simp add: calibrate_def np_vectorize_def)
qed

theorem lookup_truncates_sample_witness:
  "g_func identity_curve (Fin (7 / 2)) = Inr (Fin 3)
   \<and> apply_g identity_curve (Fin (7 / 2)) = Inr (Fin 3)
   \<and> calibrate [Fin (7 / 2)] (Fin 2) (Fin 1) identity_curve
     = calibrate [Fin 3] (Fin 2) (Fin 1) identity_curve"
proof -
  note both = lookup_truncates_sample [of identity_curve, OF length_identity_curve]
  have lookups: "g_func identity_curve (Fin (7 / 2)) = Inr (identity_curve ! 3)
      \<and> apply_g identity_curve (Fin (7 / 2)) = Inr (identity_curve ! 3)"
    using both [THEN conjunct1, rule_format, of 3 "7 / 2"] by simp
  have "\<exists>n\<le>255. real n \<le> (7 / 2 :: real) \<and> (7 / 2 :: real) < real n + 1
                 \<and> real n \<le> (3 :: real) \<and> (3 :: real) < real n + 1"
    by (rule exI [of _ 3]) simp
  then have "calibrate (map Fin [7 / 2]) (Fin 2) (Fin 1) identity_curve
      = calibrate (map Fin [3]) (Fin 2) (Fin 1) identity_curve"
    using both [THEN conjunct2, rule_format, of "[7 / 2]" "[3]" "Fin 2" "Fin 1"] by simp
  then show ?thesis
    using lookups nth_identity_curve [of 3] by simp
qed

section \<open>Pools\<close>

text \<open>
  A pixel with a finite sample belongs to its own pool whenever the tolerance is
  positive, so that pool is not empty.
\<close>

lemma pool_contains_own_pixel:
  assumes "k < shape0 data" "p < shape1 data" "cell data k p = Fin z" "0 < eps"
  shows "\<exists>pool_p. pool data (int k) (cell data k p) (Fin eps) = Inr pool_p \<and> p \<in> set pool_p"
proof -
  have "rows data ! k = map (cell data k) [0..<shape1 data]"
    using assms(1) by (simp add: rows_def)
  then have "get_row data (int k) = Inr (map (cell data k) [0..<shape1 data])"
    using assms(1) by (simp add: get_row_def py_index_def rows_def)
  then show ?thesis
    using assms(2-4) by (simp add: pool_def nonzero_def np_sub_def)
qed

text \<open>
  Claim C3 at a frame with the codes 10 and 11 and the default tolerance 1. The
  second pixel is at distance 1 from the first, within the tolerance, and the
  comment in \<open>pool\<close> speaks of a maximum difference of \<open>epsilon = 1\<close>; but the
  mask is built with the strict comparison \<^verbatim>\<open>< eps\<close>, and the pool of the
  first pixel is the first pixel alone.
\<close>

theorem pool_excludes_distance_one:
  "pool \<lparr>shape0 = 1, shape1 = 2, cell = (\<lambda>i p. [Fin 10, Fin 11] ! p)\<rparr> 0 (Fin 10) (Fin 1)
     = Inr [0]"
  by (simp add: pool_def get_row_def rows_def py_index_def nonzero_def np_sub_def upt_conv_Cons)

section \<open>The calibration loop\<close>

text \<open>
  Claim C7. With iteration count 0 the loop body never runs: the loop returns the
  state it was given, so gain, bias and curve are unchanged.
\<close>

theorem calibration_loop_zero_iterations:
  "calibration_loop minimize data 0 s = Inr s"
  by (simp add: calibration_loop_def)

section \<open>Irradiance estimation\<close>

lemma get_row_nat:
  "k < shape0 data \<Longrightarrow> get_row data (int k) = Inr (map (cell data k) [0..<shape1 data])"
  by (simp add: get_row_def rows_def py_index_def)

lemma frame_set_code:
  assumes "frame_set data code" "i < shape0 data" "p < shape1 data"
  shows "code i p < 256" and "cell data i p = Fin (real (code i p))"
proof -
  from assms have "code i p \<le> 255 \<and> cell data i p = Fin (real (code i p))"
    unfolding frame_set_def by blast
  then show "code i p < 256" and "cell data i p = Fin (real (code i p))" by simp_all
qed

lemma frame_row:
  assumes "frame_set data code" "k < shape0 data"
  shows "map (cell data k) [0..<shape1 data] = map (\<lambda>p. Fin (real (code k p))) [0..<shape1 data]"
  using assms by (simp add: frame_set_def)

lemma g_func_vec_codes:
  assumes "\<forall>p < n. code p < length g" "0 < n"
  shows "g_func_vec g (map (\<lambda>p. Fin (real (code p))) [0..<n]) = Inr (map (\<lambda>p. g ! code p) [0..<n])"
proof -
  have "mapE (g_func g \<circ> (\<lambda>p. Fin (real (code p)))) [0..<n] = Inr (map (\<lambda>p. g ! code p) [0..<n])"
    by (rule mapE_Inr) (use assms in \<open>simp add: g_func_code\<close>)
  moreover have "mapE (g_func g) (map (\<lambda>p. Fin (real (code p))) [0..<n])
      = mapE (g_func g \<circ> (\<lambda>p. Fin (real (code p)))) [0..<n]"
    by (rule mapE_map_eq) simp
  ultimately show ?thesis using assms(2) by (simp add: g_func_vec_def np_vectorize_def)
qed

lemma frame_lookup:
  assumes "frame_set data code" "k < shape0 data" "0 < shape1 data" "length g = 256"
  shows "g_func_vec g (map (cell data k) [0..<shape1 data])
     = Inr (map (\<lambda>p. g ! code k p) [0..<shape1 data])"
proof -
  have "\<forall>p < shape1 data. code k p < length g"
    using assms frame_set_code(1) [of data code k] by simp
  then show ?thesis
    using assms g_func_vec_codes [of "shape1 data" "code k" g] by (simp add: frame_row)
qed

lemma py_index_nat: "i < length xs \<Longrightarrow> py_index xs (int i) = Inr (xs ! i)"
  by (simp add: py_index_def)

lemma calc_E_single_value:
  assumes "frame_set data code" "i < shape0 data" "0 < shape1 data" "length g = 256"
    and "length w = shape0 data" "length b = shape0 data" "length a = shape0 data"
  shows "calc_E_single g w data b a i
     = Inr (Arr (map (\<lambda>p. np_div (np_mul (w ! i) (np_sub (g ! code i p) (b ! i))) (a ! i))
                  [0..<shape1 data]))"
  using assms by (simp add: calc_E_single_def py_index_nat get_row_nat frame_lookup o_def)

lemma py_sum_from_Arr:
  "py_sum_from (Arr (map c [0..<n])) (map (\<lambda>i. Arr (map (t i) [0..<n])) js)
     = Inr (Arr (map (\<lambda>p. foldl np_add (c p) (map (\<lambda>i. t i p) js)) [0..<n]))"
proof (induction js arbitrary: c)
  case Nil
  then show ?case by simp
next
  case (Cons j js)
  have "nd_binop np_add (Arr (map c [0..<n])) (Arr (map (t j) [0..<n]))
      = Inr (Arr (map (\<lambda>p. np_add (c p) (t j p)) [0..<n]))"
    by (simp add: arr_binop_def map2_map_map)
  then show ?case using Cons.IH [of "\<lambda>p. np_add (c p) (t j p)"] by simp
qed

lemma py_sum_arrays:
  assumes "js \<noteq> []"
  shows "py_sum (map (\<lambda>i. Arr (map (t i) [0..<n])) js)
     = Inr (Arr (map (\<lambda>p. np_sum (map (\<lambda>i. t i p) js)) [0..<n]))"
proof -
  from assms obtain j js' where js: "js = j # js'" by (cases js) auto
  show ?thesis
    unfolding js py_sum_def np_sum_def
    using py_sum_from_Arr [of "\<lambda>p. np_add (Fin 0) (t j p)" n t js']
    by (simp add: o_def)
qed

lemma calc_E_value:
  assumes "frame_set data code" "0 < shape0 data" "0 < shape1 data" "length g = 256"
    and "length w = shape0 data" "length b = shape0 data" "length a = shape0 data"
  shows "calc_E g w data b a
     = Inr (Arr (map (\<lambda>p. np_sum (map (\<lambda>i. np_div (np_mul (w ! i) (np_sub (g ! code i p) (b ! i))) (a ! i))
                                         [0..<shape0 data]))
                  [0..<shape1 data]))"
proof -
  let ?t = "\<lambda>i p. np_div (np_mul (w ! i) (np_sub (g ! code i p) (b ! i))) (a ! i)"
  have "mapE (calc_E_single g w data b a) [0..<shape0 data]
      = Inr (map (\<lambda>i. Arr (map (?t i) [0..<shape1 data])) [0..<shape0 data])"
    by (rule mapE_Inr) (use assms in \<open>simp add: calc_E_single_value\<close>)
  moreover have "[0..<shape0 data] \<noteq> []" using assms(2) by simp
  ultimately show ?thesis
    by (simp add: calc_E_def py_sum_arrays)
qed

lemma foldl_np_add_Fin:
  "foldl np_add (Fin c) (map (\<lambda>i. Fin (f i)) js) = Fin (c + sum_list (map f js))"
  by (induction js arbitrary: c) (simp_all add: add.assoc)

lemma np_sum_Fin: "np_sum (map (\<lambda>i. Fin (f i)) js) = Fin (sum_list (map f js))"
  by (simp add: np_sum_def foldl_np_add_Fin)

lemma identity_curve_real: "identity_curve = map Fin (map real [0..<256])"
  by (simp add: identity_curve_def)

lemma np_div_zero_not_finite: "\<not> is_finite (np_div x (Fin 0))"
  by (cases x) (simp_all add: signed_inf_def)

lemma np_add_not_finite_left: "\<not> is_finite x \<Longrightarrow> \<not> is_finite (np_add x y)"
  by (cases x; cases y) simp_all

lemma np_add_not_finite_right: "\<not> is_finite y \<Longrightarrow> \<not> is_finite (np_add x y)"
  by (cases x; cases y) simp_all

lemma foldl_np_add_not_finite:
  "\<not> is_finite acc \<or> (\<exists>x \<in> set xs. \<not> is_finite x) \<Longrightarrow> \<not> is_finite (foldl np_add acc xs)"
proof (induction xs arbitrary: acc)
  case Nil
  then show ?case by simp
next
  case (Cons x xs)
  have "\<not> is_finite (np_add acc x) \<or> (\<exists>y \<in> set xs. \<not> is_finite y)"
    using Cons.prems np_add_not_finite_left [of acc x] np_add_not_finite_right [of x acc] by auto
  then show ?case using Cons.IH [of "np_add acc x"] by simp
qed

text \<open>
  Claim C1. For a non-empty frame set of integer codes with at least one pixel per
  frame, a 256-entry curve, finite weight, bias and gain vectors of the frame
  count's length and no zero gain, \<open>calc_E\<close> returns the array whose entry at
  every pixel \<open>p\<close> is the sum over the frames \<open>i\<close> of
  \<open>weight[i] * (curve[frames[i][p]] - bias[i]) / gain[i]\<close>.
\<close>

theorem calc_E_weighted_sum:
  assumes "frame_set data code" "0 < shape0 data" "0 < shape1 data"
    and "length gr = 256" "length wr = shape0 data" "length br = shape0 data"
    and "length ar = shape0 data" "\<forall>i < shape0 data. ar ! i \<noteq> 0"
  shows "calc_E (map Fin gr) (map Fin wr) data (map Fin br) (map Fin ar)
     = Inr (Arr (map (\<lambda>p. Fin (\<Sum>i < shape0 data. wr ! i * (gr ! code i p - br ! i) / ar ! i))
                  [0..<shape1 data]))"
proof -
  let ?F = "shape0 data"
  have summand: "np_div (np_mul (map Fin wr ! i) (np_sub (map Fin gr ! code i p) (map Fin br ! i)))
                (map Fin ar ! i)
      = Fin (wr ! i * (gr ! code i p - br ! i) / ar ! i)"
    if "i < ?F" "p < shape1 data" for i p
  proof -
    have "code i p < length gr" using assms(1,4) that frame_set_code(1) [of data code i p] by simp
    then show ?thesis using that assms by (simp add: np_sub_def)
  qed
  have "map (\<lambda>p. np_sum (map (\<lambda>i. np_div (np_mul (map Fin wr ! i)
              (np_sub (map Fin gr ! code i p) (map Fin br ! i))) (map Fin ar ! i)) [0..<?F]))
          [0..<shape1 data]
      = map (\<lambda>p. Fin (\<Sum>i < ?F. wr ! i * (gr ! code i p - br ! i) / ar ! i)) [0..<shape1 data]"
  proof (rule map_cong [OF refl])
    fix p assume "p \<in> set [0..<shape1 data]"
    then have p: "p < shape1 data" by simp
    have "map (\<lambda>i. np_div (np_mul (map Fin wr ! i)
              (np_sub (map Fin gr ! code i p) (map Fin br ! i))) (map Fin ar ! i)) [0..<?F]
        = map (\<lambda>i. Fin (wr ! i * (gr ! code i p - br ! i) / ar ! i)) [0..<?F]"
      by (rule map_cong [OF refl]) (simp add: summand p)
    then have "np_sum (map (\<lambda>i. np_div (np_mul (map Fin wr ! i)
              (np_sub (map Fin gr ! code i p) (map Fin br ! i))) (map Fin ar ! i)) [0..<?F])
        = np_sum (map (\<lambda>i. Fin (wr ! i * (gr ! code i p - br ! i) / ar ! i)) [0..<?F])"
      by (rule arg_cong)
    then show "np_sum (map (\<lambda>i. np_div (np_mul (map Fin wr ! i)
              (np_sub (map Fin gr ! code i p) (map Fin br ! i))) (map Fin ar ! i)) [0..<?F])
        = Fin (\<Sum>i < ?F. wr ! i * (gr ! code i p - br ! i) / ar ! i)"
      by (simp only: np_sum_Fin interv_sum_list_conv_sum_set_nat atLeast0LessThan set_upt)
  qed
  then show ?thesis
    using calc_E_value [OF assms(1-3), of "map Fin gr" "map Fin wr" "map Fin br" "map Fin ar"] assms
    by simp
qed

theorem calc_E_weighted_sum_witness:
  "calc_E identity_curve [Fin (1 / 2), Fin (1 / 2)]
      \<lparr>shape0 = 2, shape1 = 2, cell = (\<lambda>i p. Fin (real ([[10, 20], [30, 40]] ! i ! p)))\<rparr>
      [Fin 0, Fin 10] [Fin 1, Fin 2]
   = Inr (Arr [Fin 10, Fin (35 / 2)])"
proof -
  let ?code = "\<lambda>i p. [[10, 20], [30, 40 :: nat]] ! i ! p"
  let ?data = "\<lparr>shape0 = 2, shape1 = 2, cell = (\<lambda>i p. Fin (real (?code i p)))\<rparr>"
  have two: "i < 2 \<longleftrightarrow> i = 0 \<or> i = 1" for i :: nat by auto
  have fs: "frame_set ?data ?code"
    by (auto simp add: frame_set_def two)
  have sums: "(\<Sum>i<2. f i) = f 0 + f (1 :: nat)" for f :: "nat \<Rightarrow> real"
    by (simp add: numeral_2_eq_2)
  have upt2: "[0..<2] = [0, 1]" by (simp add: upt_conv_Cons)
  show ?thesis
    using calc_E_weighted_sum [of ?data ?code "map real [0..<256]" "[1 / 2, 1 / 2]" "[0, 10]" "[1, 2]", OF fs]
    by (simp add: identity_curve_real two sums upt2)
qed

text \<open>
  Claim C6, as the code has it. \<open>calc_E\<close> checks nothing about the gains. When
  a gain is zero it still divides and returns an irradiance map; the division by
  zero makes every entry of the map \<^verbatim>\<open>inf\<close>, \<^verbatim>\<open>-inf\<close> or \<^verbatim>\<open>nan\<close>.
\<close>

theorem calc_E_zero_gain_returns:
  assumes "frame_set data code" "0 < shape0 data" "0 < shape1 data" "length g = 256"
    and "length w = shape0 data" "length b = shape0 data" "length a = shape0 data"
    and "j < shape0 data" "a ! j = Fin 0"
  shows "\<exists>E. calc_E g w data b a = Inr (Arr E) \<and> length E = shape1 data
            \<and> (\<forall>p < shape1 data. \<not> is_finite (E ! p))"
proof -
  let ?t = "\<lambda>i p. np_div (np_mul (w ! i) (np_sub (g ! code i p) (b ! i))) (a ! i)"
  let ?E = "map (\<lambda>p. np_sum (map (\<lambda>i. ?t i p) [0..<shape0 data])) [0..<shape1 data]"
  have "calc_E g w data b a = Inr (Arr ?E)"
    using assms(1-7) by (rule calc_E_value)
  moreover have "\<not> is_finite (?E ! p)" if "p < shape1 data" for p
  proof -
    have "\<not> is_finite (?t j p)" using assms(9) by (simp add: np_div_zero_not_finite)
    moreover have "?t j p \<in> set (map (\<lambda>i. ?t i p) [0..<shape0 data])"
      using assms(8) by simp
    ultimately have "\<not> is_finite (np_sum (map (\<lambda>i. ?t i p) [0..<shape0 data]))"
      unfolding np_sum_def by (intro foldl_np_add_not_finite) blast
    then show ?thesis using that by simp
  qed
  ultimately show ?thesis by simp
qed

theorem calc_E_zero_gain_returns_witness:
  "\<exists>E. calc_E identity_curve [Fin 1, Fin 1]
          \<lparr>shape0 = 2, shape1 = 1, cell = (\<lambda>i p. Fin (real ([[5], [5]] ! i ! p)))\<rparr>
          [Fin 0, Fin 0] [Fin 1, Fin 0] = Inr (Arr E)
       \<and> length E = 1 \<and> \<not> is_finite (E ! 0)"
proof -
  let ?code = "\<lambda>i p. [[5], [5 :: nat]] ! i ! p"
  let ?data = "\<lparr>shape0 = 2, shape1 = 1, cell = (\<lambda>i p. Fin (real (?code i p)))\<rparr>"
  have two: "i < 2 \<longleftrightarrow> i = 0 \<or> i = 1" for i :: nat by auto
  have fs: "frame_set ?data ?code"
    by (auto simp add: frame_set_def two)
  show ?thesis
    using calc_E_zero_gain_returns [of ?data ?code identity_curve "[Fin 1, Fin 1]" "[Fin 0, Fin 0]"
        "[Fin 1, Fin 0]" 1, OF fs]
    by simp
qed

text \<open>
  One frame with one pixel of code 5, weight 1, bias 0 and gain 0: the estimate is
  returned, and it is \<^verbatim>\<open>inf\<close>.
\<close>

theorem calc_E_zero_gain_counterexample:
  "calc_E identity_curve [Fin 1]
      \<lparr>shape0 = 1, shape1 = 1, cell = (\<lambda>i p. Fin 5)\<rparr> [Fin 0] [Fin 0]
   = Inr (Arr [PInf])"
proof -
  have "g_func identity_curve (Fin 5) = Inr (Fin 5)"
    using g_func_code [of 5 identity_curve 5] nth_identity_curve [of 5] trunc_of_nat [of 5] by simp
  then show ?thesis
    by (simp add: calc_E_def calc_E_single_def py_index_def get_row_def rows_def
        g_func_vec_def np_vectorize_def py_sum_def np_sub_def signed_inf_def)
qed

section \<open>The forward model at the no-correction point\<close>

lemma map_const_upt: "map (\<lambda>p. c) [0..<n] = replicate n c"
  by (simp add: map_replicate_const)

lemma map_Fin_as_upt: "map Fin xs = map (\<lambda>p. Fin (xs ! p)) [0..<length xs]"
  by (rule nth_equalityI) simp_all

lemma arr_binop_upt:
  "arr_binop f (map s [0..<n]) (map t [0..<n]) = Inr (map (\<lambda>p. f (s p) (t p)) [0..<n])"
  by (simp add: arr_binop_def map2_map_map)

lemma dg_lookup_codes:
  assumes "frame_set data code" "i < shape0 data" "length dg = 256"
  shows "mapE (\<lambda>x. bindE (py_int x) (py_index dg)) (map (cell data i) [0..<shape1 data])
     = Inr (map (\<lambda>p. dg ! code i p) [0..<shape1 data])"
proof -
  have "mapE ((\<lambda>x. bindE (py_int x) (py_index dg)) \<circ> cell data i) [0..<shape1 data]
      = Inr (map (\<lambda>p. dg ! code i p) [0..<shape1 data])"
  proof (rule mapE_Inr)
    fix p assume "p \<in> set [0..<shape1 data]"
    then have p: "p < shape1 data" by simp
    show "((\<lambda>x. bindE (py_int x) (py_index dg)) \<circ> cell data i) p = Inr (dg ! code i p)"
      using frame_set_code [OF assms(1,2) p] assms(3) by (simp add: py_index_nat)
  qed
  moreover have "mapE (\<lambda>x. bindE (py_int x) (py_index dg)) (map (cell data i) [0..<shape1 data])
      = mapE ((\<lambda>x. bindE (py_int x) (py_index dg)) \<circ> cell data i) [0..<shape1 data]"
    by (rule mapE_map_eq) simp
  ultimately show ?thesis by simp
qed

lemma calc_F_single_other_frame:
  assumes "frame_set data code" "i < shape0 data" "k < shape0 data" "i \<noteq> k"
    and "length ar = shape0 data" "length Er = shape1 data" "length wr = shape0 data"
    and "wr ! i = 0"
  shows "calc_F_single (map Fin ar) (Arr (map Fin Er))
           (replicate (shape0 data) (Fin 1)) (replicate (shape0 data) (Fin 0))
           (replicate 256 (Fin 0)) (map Fin wr) data k i
     = Inr (Arr (replicate (shape1 data) (Fin 0)))"
proof -
  let ?P = "shape1 data"
  have codes: "code i p < 256" if "p < ?P" for p
    using frame_set_code(1) [OF assms(1,2) that] .
  have "map (\<lambda>p. replicate 256 (Fin 0) ! code i p) [0..<?P] = map (\<lambda>p. Fin 0) [0..<?P]"
    by (rule map_cong [OF refl]) (simp add: codes)
  then have lookup: "mapE (\<lambda>x. bindE (py_int x) (py_index (replicate 256 (Fin 0))))
        (map (cell data i) [0..<?P]) = Inr (map (\<lambda>p. Fin 0) [0..<?P])"
    using dg_lookup_codes [OF assms(1,2), of "replicate 256 (Fin 0)"] by simp
  have Es: "map Fin Er = map (\<lambda>p. Fin (Er ! p)) [0..<?P]"
    using map_Fin_as_upt [of Er] assms(6) by simp
  have "calc_F_single (map Fin ar) (Arr (map Fin Er))
           (replicate (shape0 data) (Fin 1)) (replicate (shape0 data) (Fin 0))
           (replicate 256 (Fin 0)) (map Fin wr) data k i
      = Inr (Arr (map (\<lambda>p. Fin 0) [0..<?P]))"
    using assms(2-5,7,8)
    by (simp add: calc_F_single_def get_row_nat lookup py_index_nat Es arr_binop_upt np_sub_def
        o_def)
  then show ?thesis by (simp add: map_const_upt)
qed

lemma calc_F_results:
  assumes "frame_set data code" "k < shape0 data"
    and "length ar = shape0 data" "length Er = shape1 data" "length wr = shape0 data"
    and "\<forall>i < shape0 data. i \<noteq> k \<longrightarrow> wr ! i = 0"
  shows "mapE (calc_F_single (map Fin ar) (Arr (map Fin Er))
           (replicate (shape0 data) (Fin 1)) (replicate (shape0 data) (Fin 0))
           (replicate 256 (Fin 0)) (map Fin wr) data k) [0..<shape0 data]
     = Inr (map (\<lambda>i. if i = k then Scalar (Fin 0) else Arr (replicate (shape1 data) (Fin 0)))
              [0..<shape0 data])"
proof (rule mapE_Inr)
  fix i assume "i \<in> set [0..<shape0 data]"
  then have i: "i < shape0 data" by simp
  show "calc_F_single (map Fin ar) (Arr (map Fin Er))
           (replicate (shape0 data) (Fin 1)) (replicate (shape0 data) (Fin 0))
           (replicate 256 (Fin 0)) (map Fin wr) data k i
      = Inr (if i = k then Scalar (Fin 0) else Arr (replicate (shape1 data) (Fin 0)))"
  proof (cases "i = k")
    case True
    then show ?thesis by (simp add: calc_F_single_def)
  next
    case False
    then show ?thesis
      using calc_F_single_other_frame [OF assms(1) i assms(2) False assms(3-5)] assms(6) i
      by simp
  qed
qed

lemma py_sum_from_zeros:
  assumes "acc = Scalar (Fin 0) \<or> acc = Arr (replicate n (Fin 0))"
    and "\<forall>r \<in> set rs. r = Scalar (Fin 0) \<or> r = Arr (replicate n (Fin 0))"
  shows "py_sum_from acc rs = Inr (Scalar (Fin 0))
       \<or> py_sum_from acc rs = Inr (Arr (replicate n (Fin 0)))"
  using assms
proof (induction rs arbitrary: acc)
  case Nil
  then show ?case by auto
next
  case (Cons r rs)
  have "nd_binop np_add acc r = Inr (Scalar (Fin 0))
      \<or> nd_binop np_add acc r = Inr (Arr (replicate n (Fin 0)))"
    using Cons.prems by (auto simp add: arr_binop_def)
  then obtain acc' where acc': "nd_binop np_add acc r = Inr acc'"
      "acc' = Scalar (Fin 0) \<or> acc' = Arr (replicate n (Fin 0))"
    by auto
  then show ?case using Cons.IH [of acc'] Cons.prems(2) by simp
qed

lemma self_term_value:
  assumes "frame_set data code" "k < shape0 data" "0 < shape1 data" "length gr = 256"
    and "length ar = shape0 data" "length br = shape0 data" "length Er = shape1 data"
    and "length wr = shape0 data"
  shows "self_term (map Fin ar) (map Fin br) (map Fin gr) (Arr (map Fin Er)) (map Fin wr) data k
     = Inr (Arr (map (\<lambda>p. Fin ((wr ! k - 1) * (gr ! code k p - br ! k - Er ! p * ar ! k)))
                  [0..<shape1 data]))"
proof -
  let ?P = "shape1 data"
  have "map (\<lambda>p. map Fin gr ! code k p) [0..<?P] = map (\<lambda>p. Fin (gr ! code k p)) [0..<?P]"
    by (rule map_cong [OF refl])
       (use frame_set_code(1) [OF assms(1,2)] assms(4) in simp)
  then have lookup: "g_func_vec (map Fin gr) (map (cell data k) [0..<?P])
      = Inr (map (\<lambda>p. Fin (gr ! code k p)) [0..<?P])"
    using frame_lookup [OF assms(1-3), of "map Fin gr"] assms(4) by simp
  have Es: "map Fin Er = map (\<lambda>p. Fin (Er ! p)) [0..<?P]"
    using map_Fin_as_upt [of Er] assms(7) by simp
  show ?thesis
    using assms(2,5,6,8)
    by (simp add: self_term_def get_row_nat lookup py_index_nat Es arr_binop_upt np_sub_def o_def)
qed

text \<open>
  Claim C4. At the no-correction point (every \<open>\<delta>a\<close> entry 1, every \<open>\<delta>b\<close> and
  \<open>\<delta>g\<close> entry 0), with weight 1 for frame \<open>k\<close> and weight 0 for every other
  frame, \<open>calc_F\<close> for frame \<open>k\<close> returns 0 at every pixel: each other frame
  contributes its weight 0 times a finite value, and the self term has the factor
  \<open>weight[k] - 1 = 0\<close>. Irradiance, gain, bias and curve are finite.
\<close>

theorem calc_F_identity_point_zero:
  assumes "frame_set data code" "k < shape0 data" "0 < shape1 data" "length gr = 256"
    and "length ar = shape0 data" "length br = shape0 data" "length Er = shape1 data"
    and "length wr = shape0 data" "wr ! k = 1" "\<forall>i < shape0 data. i \<noteq> k \<longrightarrow> wr ! i = 0"
  shows "calc_F (map Fin ar) (map Fin br) (map Fin gr) (Arr (map Fin Er))
           (replicate (shape0 data) (Fin 1)) (replicate (shape0 data) (Fin 0))
           (replicate 256 (Fin 0)) (map Fin wr) data k
     = Inr (Arr (replicate (shape1 data) (Fin 0)))"
proof -
  let ?zeros = "Arr (replicate (shape1 data) (Fin 0))"
  let ?results = "map (\<lambda>i. if i = k then Scalar (Fin 0) else ?zeros) [0..<shape0 data]"
  have results: "mapE (calc_F_single (map Fin ar) (Arr (map Fin Er))
           (replicate (shape0 data) (Fin 1)) (replicate (shape0 data) (Fin 0))
           (replicate 256 (Fin 0)) (map Fin wr) data k) [0..<shape0 data] = Inr ?results"
    using assms(1,2,5,7,8,10) by (rule calc_F_results)
  have total: "py_sum ?results = Inr (Scalar (Fin 0)) \<or> py_sum ?results = Inr ?zeros"
    unfolding py_sum_def by (rule py_sum_from_zeros) auto
  have self: "self_term (map Fin ar) (map Fin br) (map Fin gr) (Arr (map Fin Er)) (map Fin wr) data k
      = Inr ?zeros"
    using self_term_value [OF assms(1-8)] assms(9) by (simp add: map_const_upt)
  have "nd_iadd (Scalar (Fin 0)) ?zeros = Inr ?zeros" "nd_iadd ?zeros ?zeros = Inr ?zeros"
    by simp_all
  then show ?thesis
    using total by (auto simp add: calc_F_def results self)
qed

theorem calc_F_identity_point_zero_witness:
  "calc_F [Fin 1, Fin 2] [Fin 0, Fin 3] identity_curve (Arr [Fin 10, Fin 20])
      [Fin 1, Fin 1] [Fin 0, Fin 0] (replicate 256 (Fin 0)) [Fin 0, Fin 1]
      \<lparr>shape0 = 2, shape1 = 2, cell = (\<lambda>i p. Fin (real ([[10, 20], [30, 40]] ! i ! p)))\<rparr> 1
   = Inr (Arr [Fin 0, Fin 0])"
proof -
  let ?code = "\<lambda>i p. [[10, 20], [30, 40 :: nat]] ! i ! p"
  let ?data = "\<lparr>shape0 = 2, shape1 = 2, cell = (\<lambda>i p. Fin (real (?code i p)))\<rparr>"
  have two: "i < 2 \<longleftrightarrow> i = 0 \<or> i = 1" for i :: nat by auto
  have fs: "frame_set ?data ?code"
    by (auto simp add: frame_set_def two)
  have rep: "replicate 2 x = [x, x]" for x :: npfloat by (simp add: numeral_2_eq_2)
  show ?thesis
    using calc_F_identity_point_zero [of ?data ?code 1 "map real [0..<256]" "[1, 2]" "[0, 3]"
        "[10, 20]" "[0, 1]", OF fs]
    by (simp add: identity_curve_real two rep)
qed

section \<open>Residual aggregation\<close>

lemma np_insort_Fin: "np_insort (Fin x) (map Fin ys) = map Fin (insort x ys)"
  by (induction ys) (auto simp add: not_less)

lemma np_sort_Fin: "np_sort (map Fin xs) = map Fin (sort xs)"
  unfolding np_sort_def sort_key_def
  by (induction xs) (simp_all add: np_insort_Fin)

lemma np_median_Fin:
  assumes "xs \<noteq> []"
  shows "np_median (map Fin xs) = Fin (spec_median xs)"
proof -
  have n: "0 < length xs" using assms by simp
  have "NaN \<notin> set (map Fin xs)" by auto
  moreover have "length xs div 2 < length xs" "length xs div 2 - 1 < length xs"
    using n by arith+
  ultimately show ?thesis
    using assms by (simp add: np_median_def spec_median_def np_sort_Fin)
qed

lemma np_mean_Fin:
  assumes "js \<noteq> []"
  shows "np_mean (map (\<lambda>q. Fin (f q)) js) = Fin (spec_mean (map f js))"
  using assms by (simp add: np_mean_def np_sum_Fin spec_mean_def)


lemma pool_codes:
  assumes "frame_set data code" "k < shape0 data" "p < shape1 data"
  shows "pool data (int k) (cell data k p) (Fin 1)
     = Inr (filter (\<lambda>q. \<bar>real (code k q) - real (code k p)\<bar> < 1) [0..<shape1 data])"
proof -
  let ?P = "shape1 data"
  let ?flags = "map (\<lambda>x. np_less (np_abs (np_sub x (cell data k p))) (Fin 1))
                  (map (cell data k) [0..<?P])"
  have "filter (\<lambda>j. ?flags ! j) [0..<length ?flags]
      = filter (\<lambda>q. \<bar>real (code k q) - real (code k p)\<bar> < 1) [0..<?P]"
  proof (rule filter_cong)
    show "[0..<length ?flags] = [0..<?P]" by simp
  next
    fix q assume "q \<in> set [0..<?P]"
    then have q: "q < ?P" by simp
    show "?flags ! q = (\<bar>real (code k q) - real (code k p)\<bar> < 1)"
      using q frame_set_code(2) [OF assms(1,2) q] frame_set_code(2) [OF assms]
      by (simp add: np_sub_def)
  qed
  then show ?thesis
    using assms(2) by (simp add: pool_def get_row_nat nonzero_def)
qed

lemma fancy_index_upt:
  assumes "\<forall>q \<in> set idx. q < n"
  shows "fancy_index (Arr (map f [0..<n])) idx = Inr (map f idx)"
proof -
  have "mapE (\<lambda>y. py_index (map f [0..<n]) (int y)) idx = Inr (map f idx)"
    by (rule mapE_Inr) (use assms in \<open>simp add: py_index_nat\<close>)
  then show ?thesis by simp
qed

lemma errors_per_pixel_value:
  assumes "frame_set data code" "k < shape0 data" "0 < shape1 data" "length gr = 256"
    and "length ar = shape0 data" "length br = shape0 data" "length Er = shape1 data"
  shows "errors_per_pixel (map Fin gr) data (Arr (map Fin Er)) (map Fin ar) (map Fin br) k
     = Inr (Arr (map (\<lambda>p. Fin (spec_raw_residual gr code Er ar br k p)) [0..<shape1 data]))"
proof -
  let ?P = "shape1 data"
  have "map (\<lambda>p. map Fin gr ! code k p) [0..<?P] = map (\<lambda>p. Fin (gr ! code k p)) [0..<?P]"
    by (rule map_cong [OF refl])
       (use frame_set_code(1) [OF assms(1,2)] assms(4) in simp)
  then have lookup: "g_func_vec (map Fin gr) (map (cell data k) [0..<?P])
      = Inr (map (\<lambda>p. Fin (gr ! code k p)) [0..<?P])"
    using frame_lookup [OF assms(1-3), of "map Fin gr"] assms(4) by simp
  have Es: "map Fin Er = map (\<lambda>p. Fin (Er ! p)) [0..<?P]"
    using map_Fin_as_upt [of Er] assms(7) by simp
  show ?thesis
    using assms(2,5,6)
    by (simp add: errors_per_pixel_def get_row_nat lookup py_index_nat Es arr_binop_upt
        np_sub_def o_def spec_raw_residual_def)
qed


lemma pool_mean_value:
  assumes "frame_set data code" "k < shape0 data" "p < shape1 data"
  shows "pool_mean data k (Arr (map (\<lambda>q. Fin (raw q)) [0..<shape1 data])) (cell data k p)
     = Inr (Fin (spec_mean (map raw
         (filter (\<lambda>q. \<bar>real (code k q) - real (code k p)\<bar> < 1) [0..<shape1 data]))))"
proof -
  let ?pool = "filter (\<lambda>q. \<bar>real (code k q) - real (code k p)\<bar> < 1) [0..<shape1 data]"
  have "p \<in> set ?pool" using assms(3) by simp
  then have "0 < length ?pool" by (rule length_pos_if_in_set)
  then have nonempty: "?pool \<noteq> []" by blast
  have "fancy_index (Arr (map (\<lambda>q. Fin (raw q)) [0..<shape1 data])) ?pool
      = Inr (map (\<lambda>q. Fin (raw q)) ?pool)"
    by (rule fancy_index_upt) simp
  then show ?thesis
    using pool_codes [OF assms] np_mean_Fin [OF nonempty, of raw]
    by (simp add: pool_mean_def)
qed

lemma calc_e_frame_value:
  assumes "frame_set data code" "k < shape0 data" "0 < shape1 data" "length gr = 256"
    and "length ar = shape0 data" "length br = shape0 data" "length Er = shape1 data"
    and raw: "raw = spec_raw_residual gr code Er ar br k"
    and pooled: "pooled = (\<lambda>p. spec_mean (map raw
         (filter (\<lambda>q. \<bar>real (code k q) - real (code k p)\<bar> < 1) [0..<shape1 data])))"
  shows "calc_e_frame (map Fin gr) data (Arr (map Fin Er)) (map Fin ar) (map Fin br) k
     = Inr (map (\<lambda>p. Fin (pooled p)) [0..<shape1 data],
            Fin (1.265 * spec_median (map (\<lambda>p. raw p - pooled p) [0..<shape1 data])))"
proof -
  let ?P = "shape1 data"
  let ?errs = "Arr (map (\<lambda>p. Fin (raw p)) [0..<?P])"
  have errs: "errors_per_pixel (map Fin gr) data (Arr (map Fin Er)) (map Fin ar) (map Fin br) k
      = Inr ?errs"
    unfolding raw using assms(1-7) by (rule errors_per_pixel_value)
  have "mapE (pool_mean data k ?errs \<circ> cell data k) [0..<?P]
      = Inr (map (\<lambda>p. Fin (pooled p)) [0..<?P])"
    by (rule mapE_Inr) (use assms(1,2) in \<open>simp add: pool_mean_value pooled\<close>)
  moreover have "mapE (pool_mean data k ?errs) (map (cell data k) [0..<?P])
      = mapE (pool_mean data k ?errs \<circ> cell data k) [0..<?P]"
    by (rule mapE_map_eq) simp
  ultimately have column: "mapE (pool_mean data k ?errs) (map (cell data k) [0..<?P])
      = Inr (map (\<lambda>p. Fin (pooled p)) [0..<?P])"
    by simp
  have diff: "nd_binop np_sub ?errs (Arr (map (\<lambda>p. Fin (pooled p)) [0..<?P]))
      = Inr (Arr (map Fin (map (\<lambda>p. raw p - pooled p) [0..<?P])))"
    by (simp add: arr_binop_upt np_sub_def o_def)
  have "map (\<lambda>p. raw p - pooled p) [0..<?P] \<noteq> []" using assms(3) by simp
  then have median: "nd_median (Arr (map Fin (map (\<lambda>p. raw p - pooled p) [0..<?P])))
      = Fin (spec_median (map (\<lambda>p. raw p - pooled p) [0..<?P]))"
    using np_median_Fin [of "map (\<lambda>p. raw p - pooled p) [0..<?P]"] by simp
  show ?thesis
    by (simp only: calc_e_frame_def errs bindE_simps get_row_nat [OF assms(2)] column diff median
        np_mul.simps)
qed

text \<open>
  What \<open>calc_e\<close> computes on a frame set of integer codes with finite irradiance,
  gain and bias. For every frame \<open>k\<close>, the table entry of pixel \<open>p\<close> is the mean
  of the raw residuals \<open>gain[k]*E[q] + bias[k] - curve[frames[k][q]]\<close> over the
  pixels \<open>q\<close> whose code is at distance strictly less than 1 from the code of
  \<open>p\<close>, which is what \<open>pool\<close> returns; the error scale of the frame is 1.265
  times the median over the pixels of the raw residual minus that mean.
\<close>

lemma calc_e_value:
  assumes "frame_set data code" "0 < shape1 data" "length gr = 256"
    and "length ar = shape0 data" "length br = shape0 data" "length Er = shape1 data"
  shows "\<exists>pool_errors median_errors pooled.
      calc_e (map Fin gr) data (Arr (map Fin Er)) (map Fin ar) (map Fin br)
        = Inr (pool_errors, median_errors)
      \<and> shape0 pool_errors = shape1 data \<and> shape1 pool_errors = shape0 data
      \<and> length median_errors = shape0 data
      \<and> (\<forall>k < shape0 data.
           (\<forall>p < shape1 data.
              pool data (int k) (cell data k p) (Fin 1)
                = Inr (filter (\<lambda>q. \<bar>real (code k q) - real (code k p)\<bar> < 1) [0..<shape1 data])
              \<and> pooled p k = spec_mean (map (spec_raw_residual gr code Er ar br k)
                    (filter (\<lambda>q. \<bar>real (code k q) - real (code k p)\<bar> < 1) [0..<shape1 data]))
              \<and> cell pool_errors p k = Fin (pooled p k))
         \<and> median_errors ! k
             = Fin (1.265 * spec_median
                 (map (\<lambda>p. spec_raw_residual gr code Er ar br k p - pooled p k)
                    [0..<shape1 data])))"
proof -
  let ?F = "shape0 data" and ?P = "shape1 data"
  let ?raw = "spec_raw_residual gr code Er ar br"
  let ?pool = "\<lambda>k p. filter (\<lambda>q. \<bar>real (code k q) - real (code k p)\<bar> < 1) [0..<?P]"
  let ?pooled = "\<lambda>p k. spec_mean (map (?raw k) (?pool k p))"
  let ?frame = "\<lambda>k. (map (\<lambda>p. Fin (?pooled p k)) [0..<?P],
        Fin (1.265 * spec_median (map (\<lambda>p. ?raw k p - ?pooled p k) [0..<?P])))"
  let ?table = "\<lparr>shape0 = ?P, shape1 = ?F, cell = (\<lambda>i k. fst (map ?frame [0..<?F] ! k) ! i)\<rparr>"
  have frames: "mapE (calc_e_frame (map Fin gr) data (Arr (map Fin Er)) (map Fin ar) (map Fin br))
      [0..<?F] = Inr (map ?frame [0..<?F])"
  proof (rule mapE_Inr)
    fix k assume "k \<in> set [0..<?F]"
    then have k: "k < ?F" by simp
    show "calc_e_frame (map Fin gr) data (Arr (map Fin Er)) (map Fin ar) (map Fin br) k = Inr (?frame k)"
      using calc_e_frame_value [OF assms(1) k assms(2-6) refl refl] .
  qed
  have result: "calc_e (map Fin gr) data (Arr (map Fin Er)) (map Fin ar) (map Fin br)
      = Inr (?table, map snd (map ?frame [0..<?F]))"
    by (simp add: calc_e_def frames)
  have per_frame: "(\<forall>p < ?P.
              pool data (int k) (cell data k p) (Fin 1) = Inr (?pool k p)
              \<and> ?pooled p k = spec_mean (map (?raw k) (?pool k p))
              \<and> cell ?table p k = Fin (?pooled p k))
         \<and> map snd (map ?frame [0..<?F]) ! k
             = Fin (1.265 * spec_median (map (\<lambda>p. ?raw k p - ?pooled p k) [0..<?P]))"
    if k: "k < ?F" for k
  proof (rule conjI)
    show "\<forall>p < ?P.
              pool data (int k) (cell data k p) (Fin 1) = Inr (?pool k p)
              \<and> ?pooled p k = spec_mean (map (?raw k) (?pool k p))
              \<and> cell ?table p k = Fin (?pooled p k)"
    proof (rule allI, rule impI)
      fix p assume p: "p < ?P"
      have "pool data (int k) (cell data k p) (Fin 1) = Inr (?pool k p)"
        using assms(1) k p by (rule pool_codes)
      moreover have "cell ?table p k = Fin (?pooled p k)"
        using k p by simp
      ultimately show "pool data (int k) (cell data k p) (Fin 1) = Inr (?pool k p)
              \<and> ?pooled p k = spec_mean (map (?raw k) (?pool k p))
              \<and> cell ?table p k = Fin (?pooled p k)"
        by simp
    qed
  next
    show "map snd (map ?frame [0..<?F]) ! k
        = Fin (1.265 * spec_median (map (\<lambda>p. ?raw k p - ?pooled p k) [0..<?P]))"
      using k by simp
  qed
  show ?thesis
    apply (rule exI [of _ ?table])
    apply (rule exI [of _ "map snd (map ?frame [0..<?F])"])
    apply (rule exI [of _ ?pooled])
    using result per_frame by simp
qed

lemma g_func_identity_code:
  "n < 256 \<Longrightarrow> g_func identity_curve (Fin (real n)) = Inr (Fin (real n))"
  using g_func_code [of n identity_curve "real n"] by (simp add: nth_identity_curve)

text \<open>
  Claim C2 at one frame with the codes 10, 11, 11, the irradiance map
  \<open>[0, 0, 3]\<close>, gain 1, bias 0 and the identity curve. The raw residuals are
  \<open>-10, -11, -8\<close>. All three codes lie within the tolerance \<open>\<plusminus>1\<close> of each
  other, so the pooled residual of the specification is \<open>-29/3\<close> at every pixel
  and its error scale is \<open>1.265 * (-1/3) = -253/600\<close>. \<open>calc_e\<close> pools with the
  strict comparison of \<open>pool\<close>, only the pixels of equal code: it returns the
  pooled residuals \<open>-10, -19/2, -19/2\<close> and the error scale 0.
\<close>

theorem calc_e_pool_misses_neighbour_codes:
  "map_sum id (\<lambda>(pool_errors, median_errors). (rows pool_errors, median_errors))
     (calc_e identity_curve
        \<lparr>shape0 = 1, shape1 = 3, cell = (\<lambda>i p. [Fin 10, Fin 11, Fin 11] ! p)\<rparr>
        (Arr [Fin 0, Fin 0, Fin 3]) [Fin 1] [Fin 0])
     = Inr ([[Fin (- 10)], [Fin (- 19 / 2)], [Fin (- 19 / 2)]], [Fin 0])
   \<and> map (spec_pooled_residual (map real [0..<256]) (\<lambda>k p. [10, 11, 11] ! p)
             [0, 0, 3] [1] [0] 3 1 0) [0, 1, 2]
       = [- 29 / 3, - 29 / 3, - 29 / 3]
   \<and> spec_error_scale (map real [0..<256]) (\<lambda>k p. [10, 11, 11] ! p) [0, 0, 3] [1] [0] 3 1 0
       = - 253 / 600"
proof -
  have g10: "g_func identity_curve (Fin 10) = Inr (Fin 10)"
    and g11: "g_func identity_curve (Fin 11) = Inr (Fin 11)"
    using g_func_identity_code [of 10] g_func_identity_code [of 11] by simp_all
  have upt3: "[0..<3] = [0, 1, 2]" by (simp add: upt_conv_Cons)
  have upt1: "[0..<1] = [0]" by simp
  have code: "map_sum id (\<lambda>(pool_errors, median_errors). (rows pool_errors, median_errors))
     (calc_e identity_curve
        \<lparr>shape0 = 1, shape1 = 3, cell = (\<lambda>i p. [Fin 10, Fin 11, Fin 11] ! p)\<rparr>
        (Arr [Fin 0, Fin 0, Fin 3]) [Fin 1] [Fin 0])
     = Inr ([[Fin (- 10)], [Fin (- 19 / 2)], [Fin (- 19 / 2)]], [Fin 0])"
    by (simp add: calc_e_def calc_e_frame_def errors_per_pixel_def pool_mean_def pool_def
        py_index_def get_row_def rows_def g_func_vec_def np_vectorize_def np_sub_def
        nonzero_def np_mean_def np_sum_def np_median_def np_sort_def arr_binop_def
        g10 g11 upt3)
  have raw: "map (spec_raw_residual (map real [0..<256]) (\<lambda>k p. [10, 11, 11] ! p)
             [0, 0, 3] [1] [0] 0) [0, 1, 2] = [- 10, - 11, - 8]"
    by (simp add: spec_raw_residual_def)
  have spec_pool: "spec_pool (\<lambda>k p. [10, 11, 11] ! p) 3 1 0 p = [0, 1, 2]" if "p < 3" for p
  proof -
    from that have "p = 0 \<or> p = 1 \<or> p = 2" by auto
    then show ?thesis by (auto simp add: spec_pool_def upt3)
  qed
  have pooled: "spec_pooled_residual (map real [0..<256]) (\<lambda>k p. [10, 11, 11] ! p)
             [0, 0, 3] [1] [0] 3 1 0 p = - 29 / 3" if "p < 3" for p
    using raw by (simp add: spec_pooled_residual_def spec_pool [OF that] spec_mean_def)
  have spec1: "map (spec_pooled_residual (map real [0..<256]) (\<lambda>k p. [10, 11, 11] ! p)
             [0, 0, 3] [1] [0] 3 1 0) [0, 1, 2] = [- 29 / 3, - 29 / 3, - 29 / 3]"
    by (simp add: pooled)
  have "map (\<lambda>p. spec_raw_residual (map real [0..<256]) (\<lambda>k p. [10, 11, 11] ! p) [0, 0, 3] [1] [0] 0 p
              - spec_pooled_residual (map real [0..<256]) (\<lambda>k p. [10, 11, 11] ! p)
                  [0, 0, 3] [1] [0] 3 1 0 p) [0..<3]
      = [- 1 / 3, - 4 / 3, 5 / 3]"
    using raw by (simp add: upt3 pooled)
  then have spec2: "spec_error_scale (map real [0..<256]) (\<lambda>k p. [10, 11, 11] ! p)
      [0, 0, 3] [1] [0] 3 1 0 = - 253 / 600"
    by (simp add: spec_error_scale_def spec_median_def)
  show ?thesis using code spec1 spec2 by blast
qed

section \<open>One iteration of the calibration loop\<close>

lemma bindE_Inr_iff: "bindE m f = Inr y \<longleftrightarrow> (\<exists>v. m = Inr v \<and> f v = Inr y)"
  by (cases m) simp_all

lemma damped_update_same_length:
  assumes "length param = length delta"
  shows "damped_update param delta
     = Inr (map2 (\<lambda>x d. np_sub x (np_mul LEARN_RATE d)) param delta)"
proof -
  have "map2 np_sub param (map (np_mul LEARN_RATE) delta)
      = map2 (\<lambda>x d. np_sub x (np_mul LEARN_RATE d)) param delta"
    by (simp add: zip_map2 split_def)
  then show ?thesis using assms by (simp add: damped_update_def arr_binop_def)
qed

lemma calc_gradients_lengths:
  assumes "calc_gradients minimize s data = Inr (da, db, dg)"
    and "\<forall>objective x0 x. minimize objective x0 = Inr x \<longrightarrow> length x = length x0"
  shows "length da = shape0 data" "length db = shape0 data" "length dg = 256"
proof -
  from assms(1) obtain x where x: "minimize (calc_total_F_error s data) (initial_args (shape0 data)) = Inr x"
    and parts: "da = take (shape0 data) x" "db = take (shape0 data) (drop (shape0 data) x)"
      "dg = drop (2 * shape0 data) x"
    by (auto simp add: calc_gradients_def Let_def bindE_Inr_iff)
  from assms(2) x have "length x = length (initial_args (shape0 data))" by blast
  then have len: "length x = 2 * shape0 data + 256" by (simp add: initial_args_def)
  show "length da = shape0 data" "length db = shape0 data" "length dg = 256"
    using len parts by simp_all
qed

lemma g_func_identity_five: "g_func identity_curve (Fin 5) = Inr (Fin 5)"
  using g_func_code [of 5 identity_curve 5] nth_identity_curve [of 5] trunc_of_nat [of 5] by simp

text \<open>
  The drawing at the end of the loop body raises in every iteration, after the
  parameters have been updated.
\<close>

lemma loop_body_raises: "loop_body minimize data s \<noteq> Inr s'"
  by (auto simp add: loop_body_def plot_step_def bindE_Inr_iff)

text \<open>
  Claim C5. Whenever the update part of an iteration completes, the weights for
  the next use are \<open>1 / errorScale[k]\<close>, where \<open>errorScale\<close> is what
  \<open>calc_e\<close> returned in this iteration, and gain, bias and curve are the old
  ones minus \<open>0.1\<close> times the corrections \<open>\<delta>a\<close>, \<open>\<delta>b\<close>, \<open>\<delta>g\<close> that
  \<open>calc_gradients\<close> returned. Gain and bias have one entry per frame and the
  curve has 256 entries; the minimizer returns a vector as long as its start
  vector.
\<close>

theorem update_step_weights_and_damped_update:
  assumes step: "update_step minimize data s = Inr s'"
    and lens: "length (glob_a s) = shape0 data" "length (glob_b s) = shape0 data"
      "length (glob_g s) = 256"
    and mini: "\<forall>objective x0 x. minimize objective x0 = Inr x \<longrightarrow> length x = length x0"
  shows "\<exists>E e errorScale da db dg.
      calc_E (glob_g s) (glob_w s) data (glob_b s) (glob_a s) = Inr E
    \<and> calc_e (glob_g s) data E (glob_a s) (glob_b s) = Inr (e, errorScale)
    \<and> glob_w s' = map (\<lambda>scale. np_div (Fin 1) scale) errorScale
    \<and> calc_gradients minimize
          (s\<lparr>glob_E := E, glob_e := e, glob_w := map (np_div (Fin 1)) errorScale,
             glob_sigma := errorScale\<rparr>) data = Inr (da, db, dg)
    \<and> length da = shape0 data \<and> length db = shape0 data \<and> length dg = 256
    \<and> glob_a s' = map2 (\<lambda>x d. np_sub x (np_mul (Fin 0.1) d)) (glob_a s) da
    \<and> glob_b s' = map2 (\<lambda>x d. np_sub x (np_mul (Fin 0.1) d)) (glob_b s) db
    \<and> glob_g s' = map2 (\<lambda>x d. np_sub x (np_mul (Fin 0.1) d)) (glob_g s) dg"
proof -
  from step obtain E where E: "calc_E (glob_g s) (glob_w s) data (glob_b s) (glob_a s) = Inr E"
    by (auto simp add: update_step_def bindE_Inr_iff)
  from step E obtain e errorScale where
    e: "calc_e (glob_g s) data E (glob_a s) (glob_b s) = Inr (e, errorScale)"
    by (auto simp add: update_step_def bindE_Inr_iff)
  let ?s1 = "s\<lparr>glob_E := E, glob_e := e, glob_w := map (np_div (Fin 1)) errorScale,
               glob_sigma := errorScale\<rparr>"
  from step E e obtain da db dg where
    grads: "calc_gradients minimize ?s1 data = Inr (da, db, dg)"
    by (auto simp add: update_step_def Let_def bindE_Inr_iff)
  note len = calc_gradients_lengths [OF grads mini]
  have a: "damped_update (glob_a s) da
      = Inr (map2 (\<lambda>x d. np_sub x (np_mul LEARN_RATE d)) (glob_a s) da)"
    and b: "damped_update (glob_b s) db
      = Inr (map2 (\<lambda>x d. np_sub x (np_mul LEARN_RATE d)) (glob_b s) db)"
    and g: "damped_update (glob_g s) dg
      = Inr (map2 (\<lambda>x d. np_sub x (np_mul LEARN_RATE d)) (glob_g s) dg)"
    using lens len by (simp_all add: damped_update_same_length)
  have "s' = ?s1\<lparr>glob_a := map2 (\<lambda>x d. np_sub x (np_mul LEARN_RATE d)) (glob_a s) da,
                 glob_b := map2 (\<lambda>x d. np_sub x (np_mul LEARN_RATE d)) (glob_b s) db,
                 glob_g := map2 (\<lambda>x d. np_sub x (np_mul LEARN_RATE d)) (glob_g s) dg\<rparr>"
    using step by (simp add: update_step_def E e grads a b g)
  then have "glob_w s' = map (\<lambda>scale. np_div (Fin 1) scale) errorScale"
    and "glob_a s' = map2 (\<lambda>x d. np_sub x (np_mul (Fin 0.1) d)) (glob_a s) da"
    and "glob_b s' = map2 (\<lambda>x d. np_sub x (np_mul (Fin 0.1) d)) (glob_b s) db"
    and "glob_g s' = map2 (\<lambda>x d. np_sub x (np_mul (Fin 0.1) d)) (glob_g s) dg"
    by (simp_all add: LEARN_RATE_def)
  with E e grads len show ?thesis by blast
qed

theorem update_step_weights_and_damped_update_witness:
  "\<exists>s'. update_step (\<lambda>objective x0. bindE (objective x0) (\<lambda>_. Inr x0))
          \<lparr>shape0 = 1, shape1 = 1, cell = (\<lambda>i p. Fin 5)\<rparr>
          \<lparr>glob_a = [Fin 1], glob_b = [Fin 0], glob_g = identity_curve, glob_E = Arr [Fin 0],
           glob_w = [Fin 1], glob_sigma = [Fin 1],
           glob_e = \<lparr>shape0 = 1, shape1 = 1, cell = (\<lambda>i k. Fin 0)\<rparr>\<rparr> = Inr s'
     \<and> glob_w s' = [PInf] \<and> glob_a s' = [Fin (9 / 10)] \<and> glob_b s' = [Fin 0]
     \<and> length (glob_g s') = 256"
proof -
  let ?M = "\<lambda>(objective :: npfloat list \<Rightarrow> py_error + npfloat) (x0 :: npfloat list).
              bindE (objective x0) (\<lambda>_. Inr x0)"
  let ?D = "\<lparr>shape0 = 1, shape1 = 1, cell = (\<lambda>i p. Fin 5)\<rparr>"
  let ?S = "\<lparr>glob_a = [Fin 1], glob_b = [Fin 0], glob_g = identity_curve, glob_E = Arr [Fin 0],
           glob_w = [Fin 1], glob_sigma = [Fin 1],
           glob_e = \<lparr>shape0 = 1, shape1 = 1, cell = (\<lambda>i k. Fin 0)\<rparr>\<rparr>"
  have cE: "calc_E identity_curve [Fin 1] ?D [Fin 0] [Fin 1] = Inr (Arr [Fin 5])"
    by (simp add: calc_E_def calc_E_single_def py_index_def get_row_def rows_def
        g_func_vec_def np_vectorize_def py_sum_def np_sub_def g_func_identity_five)
  have "\<exists>e. calc_e identity_curve ?D (Arr [Fin 5]) [Fin 1] [Fin 0] = Inr (e, [Fin 0])
          \<and> get_col e 0 = Inr [Fin 0]"
    by (simp add: calc_e_def calc_e_frame_def errors_per_pixel_def pool_mean_def pool_def
        py_index_def get_row_def rows_def get_col_def cols_def g_func_vec_def np_vectorize_def
        np_sub_def nonzero_def np_mean_def np_sum_def np_median_def np_sort_def arr_binop_def
        g_func_identity_five)
  then obtain e0 where ce: "calc_e identity_curve ?D (Arr [Fin 5]) [Fin 1] [Fin 0] = Inr (e0, [Fin 0])"
    and col: "get_col e0 0 = Inr [Fin 0]"
    by blast
  let ?s1 = "?S\<lparr>glob_E := Arr [Fin 5], glob_e := e0, glob_w := map (np_div (Fin 1)) [Fin 0],
                glob_sigma := [Fin 0]\<rparr>"
  have cF: "calc_F [Fin 1] [Fin 0] identity_curve (Arr [Fin 5]) [Fin 1] [Fin 0]
              (replicate 256 (Fin 0)) [PInf] ?D 0 = Inr (Arr [NaN])"
    by (simp add: calc_F_def calc_F_single_def self_term_def py_sum_def py_index_def
        get_row_def rows_def g_func_vec_def np_vectorize_def np_sub_def arr_binop_def
        signed_inf_def g_func_identity_five)
  have obj: "calc_total_F_error ?s1 ?D (initial_args 1) = Inr NaN"
    using cF col
    by (simp add: calc_total_F_error_def calc_total_F_error_single_def initial_args_def
        Let_def py_sum_def np_sum_def py_index_def arr_binop_def np_sub_def signed_inf_def)
  have grads: "calc_gradients ?M ?s1 ?D = Inr ([Fin 1], [Fin 0], replicate 256 (Fin 0))"
    using obj by (simp add: calc_gradients_def initial_args_def Let_def)
  have returns: "\<exists>s'. update_step ?M ?D ?S = Inr s'"
    using cE ce grads
    by (simp add: update_step_def damped_update_def arr_binop_def)
  then obtain s' where step: "update_step ?M ?D ?S = Inr s'" ..
  have mini: "\<forall>objective x0 x. ?M objective x0 = Inr x \<longrightarrow> length x = length x0"
    by (auto simp add: bindE_Inr_iff)
  from update_step_weights_and_damped_update [OF step _ _ _ mini]
  obtain E e errorScale da db dg where facts:
    "calc_E (glob_g ?S) (glob_w ?S) ?D (glob_b ?S) (glob_a ?S) = Inr E"
    "calc_e (glob_g ?S) ?D E (glob_a ?S) (glob_b ?S) = Inr (e, errorScale)"
    "glob_w s' = map (\<lambda>scale. np_div (Fin 1) scale) errorScale"
    "calc_gradients ?M
          (?S\<lparr>glob_E := E, glob_e := e, glob_w := map (np_div (Fin 1)) errorScale,
             glob_sigma := errorScale\<rparr>) ?D = Inr (da, db, dg)"
    "glob_a s' = map2 (\<lambda>x d. np_sub x (np_mul (Fin 0.1) d)) (glob_a ?S) da"
    "glob_b s' = map2 (\<lambda>x d. np_sub x (np_mul (Fin 0.1) d)) (glob_b ?S) db"
    "glob_g s' = map2 (\<lambda>x d. np_sub x (np_mul (Fin 0.1) d)) (glob_g ?S) dg"
    "length dg = 256"
    by auto
  from facts(1) cE have E: "E = Arr [Fin 5]" by simp
  from facts(2) ce E have scale: "errorScale = [Fin 0]" by simp
  from facts(4) have da: "da = [Fin 1]" and db: "db = [Fin 0]"
    by (auto simp add: calc_gradients_def bindE_Inr_iff initial_args_def)
  have "glob_w s' = [PInf]" using facts(3) scale by (simp add: signed_inf_def)
  moreover have "glob_a s' = [Fin (9 / 10)]" using facts(5) da by (simp add: np_sub_def)
  moreover have "glob_b s' = [Fin 0]" using facts(6) db by (simp add: np_sub_def)
  moreover have "length (glob_g s') = 256" using facts(7,8) by simp
  ultimately show ?thesis using step by blast
qed

end
